theory Spec2Isabelle
  imports Main "HOL-Library.Sublist"
begin

section \<open>Values shared by both scrapers\<close>

text \<open>
  Go errors are values.  \<open>errPackageNotFound\<close> is the sentinel of the package scraper,
  \<open>ErrTooLong\<close> is the error of \<open>bufio.Scanner\<close>, \<open>ErrNotExist\<close> is \<open>os.ErrNotExist\<close>,
  \<open>Err msg\<close> stands for every other error of the operating system or of a subprocess, and
  \<open>Wrapped msg e\<close> is \<open>fmt.Errorf("msg: %w", e)\<close>.
\<close>

datatype error = errPackageNotFound | ErrTooLong | ErrNotExist | Err string | Wrapped string error

record Package =
  Name :: string
  Version :: string

abbreviation LF :: char where "LF \<equiv> CHR 0x0A"
abbreviation CR :: char where "CR \<equiv> CHR 0x0D"

section \<open>The functions of package strings that the source calls\<close>

text \<open>
  A Go string is a sequence of bytes, as a HOL \<open>string\<close> is.  \<open>Index\<close> and \<open>LastIndex\<close>
  return \<open>None\<close> where Go returns \<open>-1\<close>.  The source splits and replaces on one-byte
  separators only, so \<open>Split\<close> and \<open>ReplaceAll\<close> take the separator as a byte.
\<close>

fun Index :: "string \<Rightarrow> string \<Rightarrow> nat option" where
  "Index [] substr = (if substr = [] then Some 0 else None)"
| "Index (c # cs) substr =
     (if prefix substr (c # cs) then Some 0 else map_option Suc (Index cs substr))"

fun LastIndex :: "string \<Rightarrow> string \<Rightarrow> nat option" where
  "LastIndex [] substr = (if substr = [] then Some 0 else None)"
| "LastIndex (c # cs) substr =
     (case LastIndex cs substr of
        Some i \<Rightarrow> Some (Suc i)
      | None \<Rightarrow> if prefix substr (c # cs) then Some 0 else None)"

definition Contains :: "string \<Rightarrow> string \<Rightarrow> bool" where
  "Contains s substr = (Index s substr \<noteq> None)"

definition HasPrefix :: "string \<Rightarrow> string \<Rightarrow> bool" where
  "HasPrefix s p = prefix p s"

fun Split :: "string \<Rightarrow> char \<Rightarrow> string list" where
  "Split [] sep = [[]]"
| "Split (c # cs) sep =
     (if c = sep then [] # Split cs sep
      else (case Split cs sep of [] \<Rightarrow> [[c]] | t # ts \<Rightarrow> (c # t) # ts))"

definition Trim :: "string \<Rightarrow> string \<Rightarrow> string" where
  "Trim s cutset =
     rev (dropWhile (\<lambda>c. c \<in> set cutset) (rev (dropWhile (\<lambda>c. c \<in> set cutset) s)))"

definition ReplaceAll :: "string \<Rightarrow> char \<Rightarrow> char \<Rightarrow> string" where
  "ReplaceAll s old new = map (\<lambda>c. if c = old then new else c) s"

fun Join :: "string list \<Rightarrow> string \<Rightarrow> string" where
  "Join [] sep = []"
| "Join [e] sep = e"
| "Join (e # f # es) sep = e @ sep @ Join (f # es) sep"

text \<open>
  \<open>strings.ToLower\<close> and \<open>strings.TrimSpace\<close> work on bytes as long as the string is
  ASCII and fall back to the Unicode tables otherwise.  The tables are not part of the
  repository: what they answer is a parameter, and every theorem holds for all of them.
  \<open>ToLowerRune u s\<close> is asked for a string \<open>s\<close> that starts with a byte outside ASCII:
  it gives the UTF-8 encoding of \<open>unicode.ToLower\<close> of the first rune of \<open>s\<close> (of
  U+FFFD where \<open>s\<close> does not start with a valid encoding) and the number of bytes of
  that rune after its first one.  \<open>TrimLeftSpace\<close> and \<open>TrimRightSpace\<close> are
  \<open>strings.TrimLeftFunc\<close> and \<open>strings.TrimRightFunc\<close> with \<open>unicode.IsSpace\<close>.
\<close>

record unicode =
  ToLowerRune :: "string \<Rightarrow> string \<times> nat"
  TrimLeftSpace :: "string \<Rightarrow> string"
  TrimRightSpace :: "string \<Rightarrow> string"

definition RuneSelf :: nat where
  "RuneSelf = 0x80"

definition lowerByte :: "char \<Rightarrow> char" where
  "lowerByte c =
     (if of_char (CHR ''A'') \<le> (of_char c :: nat) \<and> (of_char c :: nat) \<le> of_char (CHR ''Z'')
      then char_of (of_char c + (of_char (CHR ''a'') - of_char (CHR ''A'') :: nat))
      else c)"

text \<open>
  \<open>strings.Map(unicode.ToLower, s)\<close>, rune by rune from the left: a byte of ASCII is a
  rune of its own and \<open>unicode.ToLower\<close> maps it as \<open>lowerByte\<close> does; every other rune
  is mapped by the tables.
\<close>

function Map_ToLower :: "unicode \<Rightarrow> string \<Rightarrow> string" where
  "Map_ToLower u [] = []"
| "Map_ToLower u (c # cs) =
     (if (of_char c :: nat) < RuneSelf then lowerByte c # Map_ToLower u cs
      else (case ToLowerRune u (c # cs) of
              (r, width) \<Rightarrow> r @ Map_ToLower u (drop width cs)))"
  by pat_completeness auto
termination
  by (relation "measure (\<lambda>(u, s). length s)") auto

definition ToLower :: "unicode \<Rightarrow> string \<Rightarrow> string" where
  "ToLower u s =
     (if list_all (\<lambda>c. (of_char c :: nat) < RuneSelf) s then map lowerByte s
      else Map_ToLower u s)"

definition asciiSpace :: "char \<Rightarrow> bool" where
  "asciiSpace c = (c \<in> set [CHR 0x09, LF, CHR 0x0B, CHR 0x0C, CR, CHR '' ''])"

text \<open>
  One of the two loops of \<open>TrimSpace\<close>: skip ASCII white space from the front; the flag
  tells that the loop stopped at a byte outside ASCII.
\<close>

fun skipSpace :: "string \<Rightarrow> string \<times> bool" where
  "skipSpace [] = ([], False)"
| "skipSpace (c # cs) =
     (if RuneSelf \<le> (of_char c :: nat) then (c # cs, True)
      else if asciiSpace c then skipSpace cs
      else (c # cs, False))"

definition TrimSpace :: "unicode \<Rightarrow> string \<Rightarrow> string" where
  "TrimSpace u s =
     (case skipSpace s of
        (t, True) \<Rightarrow> TrimRightSpace u (TrimLeftSpace u t)
      | (t, False) \<Rightarrow>
          (case skipSpace (rev t) of
             (r, True) \<Rightarrow> TrimRightSpace u (rev r)
           | (r, False) \<Rightarrow> rev r))"

section \<open>The line scanner\<close>

text \<open>
  \<open>bufio.Scanner\<close> hands the buffered input to a split function, which answers with the
  number of bytes to advance and a token, or asks for more input.  The buffer holds at
  most \<open>MaxScanTokenSize\<close> bytes: when it is full and the split function still asks for
  more, scanning stops with \<open>ErrTooLong\<close>.  Both split functions used here look for the
  first line feed, so what they answer on a prefix of the input they answer on every
  longer one, and one call on the largest buffer stands for the calls on the growing one.
  \<open>Scan split input\<close> is one call of \<open>scanner.Scan()\<close> on the input not yet consumed:
  \<open>Token text rest\<close> when it returns true, \<open>Stop err\<close> when it returns false, with \<open>err\<close>
  what \<open>scanner.Err()\<close> reports.
\<close>

definition MaxScanTokenSize :: nat where
  "MaxScanTokenSize = 64 * 1024"

type_synonym SplitFunc = "string \<Rightarrow> bool \<Rightarrow> nat \<times> string option"

definition dropCR :: "string \<Rightarrow> string" where
  "dropCR data = (if data \<noteq> [] \<and> last data = CR then butlast data else data)"

definition ScanLines :: SplitFunc where
  "ScanLines data atEOF =
     (if atEOF \<and> length data = 0 then (0, None)
      else (case Index data [LF] of
              Some i \<Rightarrow> (i + 1, Some (dropCR (take i data)))
            | None \<Rightarrow> if atEOF then (length data, Some (dropCR data)) else (0, None)))"

definition customSplitFunc :: SplitFunc where
  "customSplitFunc data atEOF =
     (if atEOF \<and> length data = 0 then (0, None)
      else if atEOF then (length data, Some data)
      else (case Index data [LF] of
              Some i \<Rightarrow> (i + 1, Some (take i data))
            | None \<Rightarrow> (0, None)))"

datatype scan = Token string string | Stop "error option"

definition Scan :: "SplitFunc \<Rightarrow> string \<Rightarrow> scan" where
  "Scan split input =
     (case split (take MaxScanTokenSize input) False of
        (advance, Some token) \<Rightarrow> Token token (drop advance input)
      | (advance, None) \<Rightarrow>
          if MaxScanTokenSize \<le> length input then Stop (Some ErrTooLong)
          else (case split input True of
                  (advance, Some token) \<Rightarrow> Token token (drop advance input)
                | (advance, None) \<Rightarrow> Stop None))"

lemma Index_less_length: "Index s substr = Some i \<Longrightarrow> substr \<noteq> [] \<Longrightarrow> i < length s"
  by (induction s arbitrary: i) (auto split: if_splits)

lemma Scan_ScanLines_shorter:
  assumes "Scan ScanLines input = Token text rest"
  shows "length rest < length input"
proof -
  have "input \<noteq> []"
    using assms by (auto simp: Scan_def ScanLines_def split: option.splits if_splits)
  then show ?thesis
    using assms by (auto simp: Scan_def ScanLines_def split: option.splits if_splits)
qed

lemma Scan_customSplitFunc_shorter:
  assumes "Scan customSplitFunc input = Token text rest"
  shows "length rest < length input"
proof -
  have "input \<noteq> []"
    using assms by (auto simp: Scan_def customSplitFunc_def split: option.splits if_splits)
  then show ?thesis
    using assms by (auto simp: Scan_def customSplitFunc_def split: option.splits if_splits)
qed

section \<open>The output parsers\<close>

text \<open>
  The loop of \<open>parseDpkgOutput\<close>, from \<open>for scanner.Scan()\<close> to its end: the result is
  the variable \<open>version\<close> and the value of \<open>scanner.Err()\<close> after the loop.  A \<open>break\<close>
  leaves the scanner without an error.
\<close>

function dpkgScan :: "string \<Rightarrow> string \<Rightarrow> string \<times> error option" where
  "dpkgScan packageName input =
     (case Scan ScanLines input of
        Stop err \<Rightarrow> ([], err)
      | Token text rest \<Rightarrow>
          (let line = Trim text [CHR '' '', CHR 0x27] in
           if length line = 0 then dpkgScan packageName rest
           else let tokens = Split line (CHR '' '') in
             if length tokens \<noteq> 3 then dpkgScan packageName rest
             else if tokens ! 0 \<noteq> packageName then dpkgScan packageName rest
             else if tokens ! 1 = ''ii'' then
               (let version = tokens ! 2;
                    version = (case LastIndex version ''.'' of
                                 Some pos \<Rightarrow> take pos version
                               | None \<Rightarrow> version);
                    version = (case Index version '':'' of
                                 Some pos \<Rightarrow> drop (pos + 1) version
                               | None \<Rightarrow> version);
                    version = (case Index version ''+dfsg'' of
                                 Some pos \<Rightarrow> take pos version
                               | None \<Rightarrow> version)
                in (version, None))
             else dpkgScan packageName rest))"
  by pat_completeness auto
termination
  by (relation "measure (\<lambda>(packageName, input). length input)")
     (auto dest: Scan_ScanLines_shorter)

definition parseDpkgOutput :: "string \<Rightarrow> string \<Rightarrow> error option \<Rightarrow> error + Package" where
  "parseDpkgOutput packageName dpkgOutput dpkgErr =
     (case dpkgErr of
        Some e \<Rightarrow>
          if Contains dpkgOutput ''no packages found matching'' then Inl errPackageNotFound
          else Inl e
      | None \<Rightarrow>
          (case dpkgScan packageName dpkgOutput of
             (version, Some err) \<Rightarrow> Inl err
           | (version, None) \<Rightarrow>
               if length version > 0 then Inr \<lparr>Name = packageName, Version = version\<rparr>
               else Inl errPackageNotFound))"

function rpmScan :: "string \<Rightarrow> string \<Rightarrow> string \<times> error option" where
  "rpmScan packageName input =
     (case Scan ScanLines input of
        Stop err \<Rightarrow> ([], err)
      | Token text rest \<Rightarrow>
          (let line = Trim text [CHR '' '', CHR 0x27] in
           if length line = 0 then rpmScan packageName rest
           else let tokens = Split line (CHR '' '') in
             if length tokens \<noteq> 3 then rpmScan packageName rest
             else if tokens ! 0 \<noteq> packageName then rpmScan packageName rest
             else
               (let release = tokens ! 2;
                    release = (case LastIndex release ''.'' of
                                 Some pos \<Rightarrow> take pos release
                               | None \<Rightarrow> release);
                    release = ReplaceAll release (CHR ''.'') (CHR ''-'')
                in (Join [tokens ! 1, release] ''-'', None))))"
  by pat_completeness auto
termination
  by (relation "measure (\<lambda>(packageName, input). length input)")
     (auto dest: Scan_ScanLines_shorter)

definition parseRpmOutput :: "string \<Rightarrow> string \<Rightarrow> error option \<Rightarrow> error + Package" where
  "parseRpmOutput packageName rpmOutput rpmErr =
     (case rpmErr of
        Some e \<Rightarrow>
          if Contains rpmOutput ''is not installed'' then Inl errPackageNotFound
          else Inl e
      | None \<Rightarrow>
          (case rpmScan packageName rpmOutput of
             (version, Some err) \<Rightarrow> Inl err
           | (version, None) \<Rightarrow>
               if length version > 0 then Inr \<lparr>Name = packageName, Version = version\<rparr>
               else Inl errPackageNotFound))"

declare dpkgScan.simps [simp del] rpmScan.simps [simp del]

section \<open>The package scraper\<close>

text \<open>
  What \<open>goInfo.GetInfo()\<close> returns, with the three fields the repository reads.  The
  call is made by a library outside the repository: its result is an argument.
\<close>

record GoInfoObject =
  OS :: string
  Core :: string
  Platform :: string

definition getOSInfo :: "error + GoInfoObject \<Rightarrow> string" where
  "getOSInfo info =
     (case info of
        Inl err \<Rightarrow> ''unknown''
      | Inr gi \<Rightarrow> OS gi @ '' '' @ Core gi)"

text \<open>The loop over the prefixes, shared by the two family tests.\<close>

fun hasAnyPrefix :: "string \<Rightarrow> string list \<Rightarrow> bool" where
  "hasAnyPrefix nameL [] = False"
| "hasAnyPrefix nameL (p # ps) =
     (if HasPrefix nameL p then True else hasAnyPrefix nameL ps)"

definition isDebianFamily :: "unicode \<Rightarrow> string \<Rightarrow> bool" where
  "isDebianFamily u name =
     (let nameL = ToLower u name;
          prefixes = [''debian'', ''ubuntu'']
      in hasAnyPrefix nameL prefixes)"

definition isRHELFamily :: "unicode \<Rightarrow> string \<Rightarrow> bool" where
  "isRHELFamily u name =
     (let nameL = ToLower u name;
          prefixes = [''el'', ''centos'', ''oracle'', ''rocky'', ''red hat'', ''amazon'', ''alma'']
      in hasAnyPrefix nameL prefixes)"

text \<open>
  The command runner: \<open>exec.CommandContext(...).CombinedOutput()\<close> maps the argument
  vector to the combined output and the error of the process.  A cancelled context or
  the timeout of thirty seconds shows as an error.
\<close>

type_synonym runner = "string list \<Rightarrow> string \<times> error option"

definition queryDpkg :: "runner \<Rightarrow> string \<Rightarrow> error + Package" where
  "queryDpkg run packageName =
     (let args = [''dpkg-query'', ''-f'',
                  CHR 0x27 # ''${Package} ${db:Status-Abbrev}${Version}'' @ [CHR 0x27],
                  ''-W'', packageName];
          (outputB, err) = run args
      in parseDpkgOutput packageName outputB err)"

definition queryRpm :: "runner \<Rightarrow> string \<Rightarrow> error + Package" where
  "queryRpm run packageName =
     (let args = [''rpm'', ''-q'', packageName, ''--queryformat'',
                  CHR 0x27 # ''%{NAME} %{VERSION} %{RELEASE}'' @ [CHR 0x27]];
          (outputB, err) = run args
      in parseRpmOutput packageName outputB err)"

definition getDebianPackages :: "string list" where
  "getDebianPackages =
     [''Percona-Server-server-5.7'',
      ''Percona-Xtradb-Cluster-server-5.7'',
      ''percona-postgresql-14'',
      ''percona-postgresql-15'',
      ''percona-postgresql-16'']"

definition getRhelPackages :: "string list" where
  "getRhelPackages =
     [''Percona-Server-server-57'',
      ''Percona-XtraDB-Cluster-server-57'',
      ''percona-postgresql14-server'',
      ''percona-postgresql15-server'',
      ''percona-postgresql16-server'']"

definition getCommonPackages :: "string list" where
  "getCommonPackages =
     [''percona-server-server'',
      ''percona-server-server-pro'',
      ''percona-mysql-shell'',
      ''percona-mysql-router'',
      ''percona-mysql-router-pro'',
      ''proxysql'',
      ''proxysql2'',
      ''percona-orchestrator'',
      ''percona-xtradb-cluster-server'',
      ''percona-xtradb-cluster-mysql-router'',
      ''percona-server-mongodb-server'',
      ''percona-server-mongodb-server-pro'',
      ''percona-server-mongodb-mongos'',
      ''percona-server-mongodb-mongos-pro'',
      ''percona-backup-mongodb'',
      ''etcd'',
      ''percona-pgbouncer'',
      ''percona-xtrabackup-24'',
      ''percona-xtrabackup-80'',
      ''percona-xtrabackup-81'',
      ''percona-xtrabackup-82'',
      ''percona-xtrabackup-83'',
      ''percona-toolkit'',
      ''percona-haproxy'',
      ''pmm2-client'',
      ''percona-telemetry-agent'']"

text \<open>
  The loop \<open>for _, pName := range pkgList\<close> of \<open>ScrapeInstalledPackages\<close>: \<open>toReturn\<close> is
  the slice the source appends to, and \<open>probed\<close> records the names \<open>pkgFunc\<close> was called
  with, in order.  Both kinds of error lead to \<open>continue\<close>; they differ in the log only.
\<close>

fun scrapeLoop ::
  "(string \<Rightarrow> error + Package) \<Rightarrow> string list \<Rightarrow> Package list \<Rightarrow> string list
     \<Rightarrow> Package list \<times> string list" where
  "scrapeLoop pkgFunc [] toReturn probed = (toReturn, probed)"
| "scrapeLoop pkgFunc (pName # pkgList) toReturn probed =
     (case pkgFunc pName of
        Inl err \<Rightarrow> scrapeLoop pkgFunc pkgList toReturn (probed @ [pName])
      | Inr pkg \<Rightarrow> scrapeLoop pkgFunc pkgList (toReturn @ [pkg]) (probed @ [pName]))"

definition ScrapeInstalledPackages ::
  "unicode \<Rightarrow> error + GoInfoObject \<Rightarrow> runner \<Rightarrow> Package list \<times> string list" where
  "ScrapeInstalledPackages u info run =
     (let pkgList = getCommonPackages;
          localOs = getOSInfo info;
          toReturn = []
      in if isDebianFamily u localOs then
           scrapeLoop (queryDpkg run) (pkgList @ getDebianPackages) toReturn []
         else if isRHELFamily u localOs then
           scrapeLoop (queryRpm run) (pkgList @ getRhelPackages) toReturn []
         else (toReturn, []))"

section \<open>The identity file and the host metrics\<close>

definition telemetryFile :: string where
  "telemetryFile = ''/usr/local/percona/telemetry_uuid''"

definition instanceIDKey :: string where
  "instanceIDKey = ''instanceId''"

text \<open>
  The part of the file system \<open>getInstanceID\<close> looks at: the directory of the identity
  file and the file in it.  \<open>DirAbsent\<close> is the state in which \<open>os.Stat(dirName)\<close> reports
  that the directory does not exist, \<open>DirPresent\<close> every other one.  The file is absent
  (\<open>os.Open\<close> fails with \<open>os.ErrNotExist\<close>), or cannot be opened for another reason, or
  opens and \<open>file.Stat()\<close> fails, or opens with the content given.  The path of the
  file is fixed by the caller and is not an argument of the model: the state is the
  state of that path.
\<close>

datatype file_state = FileAbsent | FileOpenFails string | FileStatFails string | FilePresent string

datatype dir_state = DirAbsent | DirPresent file_state

text \<open>
  What the calls that write answer during one \<open>getInstanceID\<close>: whether \<open>os.MkdirAll\<close>
  fails, whether \<open>os.WriteFile\<close> fails and in which state it then leaves the file, and
  the string of the identifier that \<open>uuid.New()\<close> draws.
\<close>

record calls =
  MkdirAll_fails :: "string option"
  WriteFile_fails :: "(string \<times> file_state) option"
  uuid_New :: string

definition Open :: "file_state \<Rightarrow> error + file_state" where
  "Open f =
     (case f of
        FileAbsent \<Rightarrow> Inl ErrNotExist
      | FileOpenFails msg \<Rightarrow> Inl (Err msg)
      | FileStatFails msg \<Rightarrow> Inr f
      | FilePresent content \<Rightarrow> Inr f)"

definition Stat_Size :: "file_state \<Rightarrow> error + nat" where
  "Stat_Size f =
     (case f of
        FileStatFails msg \<Rightarrow> Inl (Err msg)
      | FilePresent content \<Rightarrow> Inr (length content)
      | _ \<Rightarrow> Inr 0)"

fun contents :: "file_state \<Rightarrow> string" where
  "contents (FilePresent content) = content"
| "contents _ = []"

text \<open>
  \<open>os.WriteFile\<close> creates the file or replaces its content; it cannot create a file in
  a directory that does not exist.
\<close>

definition createTelemetryFile :: "calls \<Rightarrow> dir_state \<Rightarrow> (error + string) \<times> dir_state" where
  "createTelemetryFile env fs =
     (let instanceID = uuid_New env in
      case fs of
        DirAbsent \<Rightarrow> (Inl ErrNotExist, fs)
      | DirPresent f \<Rightarrow>
          (case WriteFile_fails env of
             Some (msg, left) \<Rightarrow> (Inl (Err msg), DirPresent left)
           | None \<Rightarrow>
               (Inr instanceID, DirPresent (FilePresent (instanceIDKey @ '': '' @ instanceID)))))"

text \<open>
  The loop of \<open>getInstanceID\<close> over the lines of the file: the result is the variable
  \<open>instanceID\<close> after the loop.  The source does not look at \<open>scanner.Err()\<close>.
\<close>

function instanceIDScan :: "unicode \<Rightarrow> string \<Rightarrow> string" where
  "instanceIDScan u input =
     (case Scan customSplitFunc input of
        Stop err \<Rightarrow> []
      | Token text rest \<Rightarrow>
          (let parts = Split text (CHR '':'') in
           if length parts = 2 \<and> parts ! 0 = instanceIDKey then TrimSpace u (parts ! 1)
           else instanceIDScan u rest))"
  by pat_completeness auto
termination
  by (relation "measure (\<lambda>(u, input). length input)")
     (auto dest: Scan_customSplitFunc_shorter)

declare instanceIDScan.simps [simp del]

definition getInstanceID :: "unicode \<Rightarrow> calls \<Rightarrow> dir_state \<Rightarrow> (error + string) \<times> dir_state" where
  "getInstanceID u env fs =
     (case fs of
        DirAbsent \<Rightarrow>
          (case MkdirAll_fails env of
             Some msg \<Rightarrow> (Inl (Err msg), fs)
           | None \<Rightarrow> createTelemetryFile env (DirPresent FileAbsent))
      | DirPresent f \<Rightarrow>
          (case Open f of
             Inl err \<Rightarrow>
               if err \<noteq> ErrNotExist then (Inl err, fs)
               else createTelemetryFile env fs
           | Inr file \<Rightarrow>
               (case Stat_Size file of
                  Inl err \<Rightarrow> (Inl err, fs)
                | Inr sz \<Rightarrow>
                    if sz = 0 then createTelemetryFile env fs
                    else (Inr (instanceIDScan u (contents file)), fs))))"

definition getDeploymentInfo :: string where
  "getDeploymentInfo = ''PACKAGE''"

definition getHardwareInfo :: "error + GoInfoObject \<Rightarrow> string" where
  "getHardwareInfo info =
     (case info of
        Inl err \<Rightarrow> ''unknown''
      | Inr gi \<Rightarrow> Platform gi)"

record File =
  Timestamp :: nat
  Filename :: string
  Metrics :: "string \<rightharpoonup> string"

text \<open>
  \<open>ScrapeHostMetrics\<close>: \<open>now\<close> is what \<open>time.Now()\<close> returns, \<open>osQuery\<close> and \<open>hwQuery\<close> what
  the calls of \<open>goInfo.GetInfo()\<close> in \<open>getOSInfo\<close> and in \<open>getHardwareInfo\<close> return.
\<close>

definition ScrapeHostMetrics ::
  "unicode \<Rightarrow> calls \<Rightarrow> dir_state \<Rightarrow> nat \<Rightarrow> error + GoInfoObject \<Rightarrow> error + GoInfoObject
     \<Rightarrow> (error + File) \<times> dir_state" where
  "ScrapeHostMetrics u env fs now osQuery hwQuery =
     (case getInstanceID u env fs of
        (Inl err, fs') \<Rightarrow>
          (Inl (Wrapped ''can't get Percona telemetry instanceID'' err), fs')
      | (Inr instanceID, fs') \<Rightarrow>
          (let m = \<lparr>Timestamp = now, Filename = telemetryFile, Metrics = Map.empty\<rparr>;
               m = m\<lparr>Metrics := (Metrics m)(instanceIDKey \<mapsto> instanceID)\<rparr>;
               m = m\<lparr>Metrics := (Metrics m)(''OS'' \<mapsto> getOSInfo osQuery)\<rparr>;
               m = m\<lparr>Metrics := (Metrics m)(''deployment'' \<mapsto> getDeploymentInfo)\<rparr>;
               m = m\<lparr>Metrics := (Metrics m)(''hardware_arch'' \<mapsto> getHardwareInfo hwQuery)\<rparr>
           in (Inr m, fs')))"

section \<open>The words of the specification\<close>

text \<open>
  The tokens of a line as both parsers take them: the line without the spaces and quote
  characters it starts with and ends with (counted from either end and cut off), split
  on single spaces.  A line matches (rpm) when it has exactly three
  tokens and the first is the queried name; it qualifies (dpkg) when in addition the
  second token is \<open>ii\<close>.  The cuts are written after sections 4.3 and 4.4: the part
  of a string before the last occurrence of a byte, the part after the first one, and
  the part before \<open>+dfsg\<close>; a string without the byte or the marker stays whole.
\<close>

definition trimChar :: "char \<Rightarrow> bool" where
  "trimChar c = (c = CHR '' '' \<or> c = CHR 0x27)"

definition trimmed :: "string \<Rightarrow> string" where
  "trimmed s =
     (let lead = length (takeWhile trimChar s);
          trail = length (takeWhile trimChar (rev s))
      in take (length s - lead - trail) (drop lead s))"

text \<open>A line between the quote characters of the query formats of the source.\<close>

definition quoted :: "string \<Rightarrow> string" where
  "quoted s = CHR 0x27 # s @ [CHR 0x27]"

definition lineTokens :: "string \<Rightarrow> string list" where
  "lineTokens text = Split (trimmed text) (CHR '' '')"

definition matchingLine :: "string \<Rightarrow> string \<Rightarrow> bool" where
  "matchingLine packageName text =
     (length (lineTokens text) = 3 \<and> lineTokens text ! 0 = packageName)"

definition qualifyingLine :: "string \<Rightarrow> string \<Rightarrow> bool" where
  "qualifyingLine packageName text =
     (matchingLine packageName text \<and> lineTokens text ! 1 = ''ii'')"

definition beforeLast :: "char \<Rightarrow> string \<Rightarrow> string" where
  "beforeLast c s = (if c \<in> set s then rev (tl (dropWhile (\<lambda>x. x \<noteq> c) (rev s))) else s)"

definition afterFirst :: "char \<Rightarrow> string \<Rightarrow> string" where
  "afterFirst c s = (if c \<in> set s then tl (dropWhile (\<lambda>x. x \<noteq> c) s) else s)"

definition beforeDfsg :: "string \<Rightarrow> string" where
  "beforeDfsg s = (case Index s ''+dfsg'' of Some pos \<Rightarrow> take pos s | None \<Rightarrow> s)"

definition dpkgVersion :: "string \<Rightarrow> string" where
  "dpkgVersion token = beforeDfsg (afterFirst (CHR '':'') (beforeLast (CHR ''.'') token))"

definition rpmVersion :: "string \<Rightarrow> string \<Rightarrow> string" where
  "rpmVersion version release =
     version @ ''-'' @ ReplaceAll (beforeLast (CHR ''.'') release) (CHR ''.'') (CHR ''-'')"

text \<open>
  The families of section 4.1 of the specification, chosen as the \<open>switch\<close> of
  \<open>ScrapeInstalledPackages\<close> chooses, and their prefixes.
\<close>

datatype family = DebianFamily | RhelFamily | Unsupported

definition detectFamily :: "unicode \<Rightarrow> string \<Rightarrow> family" where
  "detectFamily u name =
     (if isDebianFamily u name then DebianFamily
      else if isRHELFamily u name then RhelFamily
      else Unsupported)"







definition debianPrefixes :: "string list" where
  "debianPrefixes = [''debian'', ''ubuntu'']"

definition rhelPrefixes :: "string list" where
  "rhelPrefixes = [''el'', ''centos'', ''oracle'', ''rocky'', ''red hat'', ''amazon'', ''alma'']"


text \<open>The outcome of one probe as the result sequence sees it.\<close>

definition installed :: "(string \<Rightarrow> error + Package) \<Rightarrow> string \<Rightarrow> Package option" where
  "installed pkgFunc pName = (case pkgFunc pName of Inl err \<Rightarrow> None | Inr pkg \<Rightarrow> Some pkg)"

text \<open>Tables that leave every byte outside ASCII as it is, for the examples.\<close>

abbreviation plainUnicode :: unicode where
  "plainUnicode \<equiv>
     \<lparr>ToLowerRune = (\<lambda>s. (take 1 s, 0)), TrimLeftSpace = (\<lambda>s. s),
      TrimRightSpace = (\<lambda>s. s)\<rparr>"

text \<open>
  A host for the examples: \<open>rpm\<close> knows the package \<open>etcd\<close>, cannot read its database
  when asked for \<open>proxysql\<close>, and reports every other package as not installed.
\<close>

definition exampleRunner :: runner where
  "exampleRunner args =
     (if args ! 0 = ''rpm'' then
        (if args ! 2 = ''etcd'' then (CHR 0x27 # ''etcd 3.5.4 1.el9'' @ [CHR 0x27], None)
         else if args ! 2 = ''proxysql'' then
           (''error: cannot open Packages database'', Some (Err ''exit status 1''))
         else (''package '' @ args ! 2 @ '' is not installed'', Some (Err ''exit status 1'')))
      else ([], Some (Err ''executable file not found'')))"

definition exampleHost :: "error + GoInfoObject" where
  "exampleHost = Inr \<lparr>OS = ''Rocky Linux'', Core = ''9.3'', Platform = ''x86_64''\<rparr>"

text \<open>
  A line of the identity file carries the identifier when it splits on the colon into
  exactly two parts, the first of them the key.
\<close>

definition identityLine :: "string \<Rightarrow> bool" where
  "identityLine text =
     (length (Split text (CHR '':'')) = 2 \<and> Split text (CHR '':'') ! 0 = instanceIDKey)"

text \<open>
  The strings that \<open>uuid.New().String()\<close> returns: thirty-six characters, lower-case
  hexadecimal digits with a dash at the positions 8, 13, 18 and 23.
\<close>

fun uuidChars :: "nat \<Rightarrow> string \<Rightarrow> bool" where
  "uuidChars i [] = True"
| "uuidChars i (c # cs) =
     ((if i \<in> {8, 13, 18, 23} then c = CHR ''-'' else c \<in> set ''0123456789abcdef'')
      \<and> uuidChars (i + 1) cs)"

definition isUUID :: "string \<Rightarrow> bool" where
  "isUUID s = (length s = 36 \<and> uuidChars 0 s)"

text \<open>The states in which \<open>getInstanceID\<close> finds nothing to read.\<close>

definition nothingStored :: "dir_state \<Rightarrow> bool" where
  "nothingStored fs =
     (fs = DirAbsent \<or> fs = DirPresent FileAbsent \<or> fs = DirPresent (FilePresent []))"

text \<open>Calls that succeed and draw a fixed identifier, for the examples.\<close>

definition exampleCalls :: calls where
  "exampleCalls =
     \<lparr>MkdirAll_fails = None, WriteFile_fails = None,
      uuid_New = ''1bed5f0d-cc3a-11ee-bd8a-c84bd64e0277''\<rparr>"

section \<open>Lines, tokens and the scanner\<close>

lemma trim_both_ends:
  "rev (dropWhile P (rev (dropWhile P s)))
     = take (length s - length (takeWhile P s) - length (takeWhile P (rev s)))
         (drop (length (takeWhile P s)) s)"
proof -
  let ?t = "dropWhile P s"
  have t: "?t = drop (length (takeWhile P s)) s" by (rule dropWhile_eq_drop)
  have lt: "length ?t = length s - length (takeWhile P s)"
    by (simp add: t)
  show ?thesis
  proof (cases "?t = []")
    case True
    have d: "drop (length (takeWhile P s)) s = []"
      unfolding t [symmetric] by (rule True)
    show ?thesis unfolding True d by simp
  next
    case False
    then have "hd ?t \<in> set (rev ?t)" "\<not> P (hd ?t)"
      by (simp_all add: hd_dropWhile)
    moreover have "rev s = rev ?t @ rev (takeWhile P s)"
      by (metis rev_append takeWhile_dropWhile_id)
    ultimately have "takeWhile P (rev s) = takeWhile P (rev ?t)"
      by (simp add: takeWhile_append1)
    then have "length s - length (takeWhile P s) - length (takeWhile P (rev s))
        = length ?t - length (takeWhile P (rev ?t))"
      using lt by simp
    moreover have "rev (dropWhile P (rev ?t)) = take (length ?t - length (takeWhile P (rev ?t))) ?t"
      by (simp add: dropWhile_eq_drop [of P "rev ?t"] rev_drop)
    ultimately show ?thesis using t by simp
  qed
qed

lemma trimmed_Trim: "trimmed s = Trim s [CHR '' '', CHR 0x27]"
proof -
  have "(\<lambda>c. c \<in> set [CHR '' '', CHR 0x27]) = trimChar"
    by (auto simp: trimChar_def)
  then show ?thesis
    by (simp add: trimmed_def Trim_def Let_def trim_both_ends del: set_simps)
qed

lemma lineTokens_Trim: "lineTokens text = Split (Trim text [CHR '' '', CHR 0x27]) (CHR '' '')"
  by (simp only: lineTokens_def trimmed_Trim)

lemma Split_not_Nil: "Split s c \<noteq> []"
  by (induction s) (auto split: list.splits)

lemma Split_line: "c \<notin> set l \<Longrightarrow> Split (l @ c # rest) c = l # Split rest c"
  by (induction l) (auto split: list.splits)

lemma Split_last: "c \<notin> set l \<Longrightarrow> Split l c = [l]"
  by (induction l) (auto split: list.splits)

lemma Split_single: "Split s c = [l] \<Longrightarrow> s = l \<and> c \<notin> set l"
  by (induction s arbitrary: l) (auto split: list.splits if_splits simp: Split_not_Nil)

lemma Split_Cons2:
  "Split s c = l # l' # ls \<Longrightarrow> \<exists>rest. s = l @ c # rest \<and> c \<notin> set l \<and> Split rest c = l' # ls"
proof (induction s arbitrary: l)
  case Nil
  then show ?case by simp
next
  case (Cons x s)
  show ?case
  proof (cases "x = c")
    case True
    with Cons.prems show ?thesis by auto
  next
    case False
    with Cons.prems obtain t where t: "Split s c = t # l' # ls" and l: "l = x # t"
      by (auto split: list.splits)
    from Cons.IH [OF t] obtain rest where "s = t @ c # rest" "c \<notin> set t" "Split rest c = l' # ls"
      by blast
    with l False show ?thesis by auto
  qed
qed

lemma Index_byte_None: "c \<notin> set s \<Longrightarrow> Index s [c] = None"
  by (induction s) auto

lemma Index_byte_line: "c \<notin> set l \<Longrightarrow> Index (l @ c # rest) [c] = Some (length l)"
  by (induction l) auto

lemma Scan_ScanLines_Nil: "Scan ScanLines [] = Stop None"
  by (simp add: Scan_def ScanLines_def MaxScanTokenSize_def)

lemma Scan_ScanLines_line:
  assumes "LF \<notin> set l" "length l < MaxScanTokenSize"
  shows "Scan ScanLines (l @ LF # rest) = Token (dropCR l) rest"
proof -
  have "take MaxScanTokenSize (l @ LF # rest) = l @ LF # take (MaxScanTokenSize - Suc (length l)) rest"
    using assms(2) by (simp add: take_Cons')
  then show ?thesis
    using assms(1) by (simp add: Scan_def ScanLines_def Index_byte_line)
qed

lemma Scan_ScanLines_last:
  assumes "LF \<notin> set l" "l \<noteq> []" "length l < MaxScanTokenSize"
  shows "Scan ScanLines l = Token (dropCR l) []"
  using assms by (simp add: Scan_def ScanLines_def Index_byte_None)

lemma Index_byte: 
  "Index s [c] = (if c \<in> set s then Some (length (takeWhile (\<lambda>x. x \<noteq> c) s)) else None)"
  by (induction s) auto

lemma afterFirst_Index:
  "(case Index s [c] of Some pos \<Rightarrow> drop (pos + 1) s | None \<Rightarrow> s) = afterFirst c s"
proof -
  have "c \<in> set s \<Longrightarrow>
      drop (Suc (length (takeWhile (\<lambda>x. x \<noteq> c) s))) s = tl (dropWhile (\<lambda>x. x \<noteq> c) s)"
    by (induction s) auto
  then show ?thesis by (simp add: Index_byte afterFirst_def)
qed

lemma LastIndex_byte_None: "c \<notin> set s \<Longrightarrow> LastIndex s [c] = None"
  by (induction s) auto

lemma LastIndex_byte_append:
  "c \<notin> set t \<Longrightarrow> LastIndex (p @ c # t) [c] = Some (length p)"
  by (induction p) (auto simp: LastIndex_byte_None)

lemma beforeLast_append: "c \<notin> set t \<Longrightarrow> beforeLast c (p @ c # t) = p"
  by (simp add: beforeLast_def dropWhile_append3 dropWhile_append)

lemma beforeLast_LastIndex:
  "(case LastIndex s [c] of Some pos \<Rightarrow> take pos s | None \<Rightarrow> s) = beforeLast c s"
proof (cases "c \<in> set s")
  case True
  then obtain p t where s: "s = p @ c # t" and t: "c \<notin> set t"
    using split_list_last [of c s] by auto
  have "LastIndex s [c] = Some (length p)"
    using LastIndex_byte_append [OF t, of p] s by simp
  moreover have "beforeLast c s = p"
    using beforeLast_append [OF t, of p] s by simp
  moreover have "take (length p) s = p"
    using s by simp
  ultimately show ?thesis by simp
next
  case False
  then show ?thesis by (simp add: LastIndex_byte_None beforeLast_def)
qed

lemma dpkgScan_skip:
  assumes "Scan ScanLines input = Token text rest" "\<not> qualifyingLine packageName text"
  shows "dpkgScan packageName input = dpkgScan packageName rest"
  using assms
  by (subst dpkgScan.simps)
     (auto simp: qualifyingLine_def matchingLine_def lineTokens_Trim Let_def)

lemma dpkgScan_hit:
  assumes "Scan ScanLines input = Token text rest" "qualifyingLine packageName text"
  shows "dpkgScan packageName input = (dpkgVersion (lineTokens text ! 2), None)"
proof -
  have tok: "length (lineTokens text) = 3" "lineTokens text ! 0 = packageName"
    "lineTokens text ! 1 = ''ii''"
    using assms(2) by (simp_all add: qualifyingLine_def matchingLine_def)
  then have ne: "Trim text [CHR '' '', CHR 0x27] \<noteq> []"
    by (auto simp: lineTokens_Trim)
  show ?thesis
    using assms(1) tok ne
    by (subst dpkgScan.simps)
       (simp add: lineTokens_Trim [symmetric] Let_def dpkgVersion_def beforeDfsg_def
          afterFirst_Index beforeLast_LastIndex)
qed

lemma rpmScan_skip:
  assumes "Scan ScanLines input = Token text rest" "\<not> matchingLine packageName text"
  shows "rpmScan packageName input = rpmScan packageName rest"
  using assms
  by (subst rpmScan.simps)
     (auto simp: matchingLine_def lineTokens_Trim Let_def)

lemma rpmScan_hit:
  assumes "Scan ScanLines input = Token text rest" "matchingLine packageName text"
  shows "rpmScan packageName input =
    (rpmVersion (lineTokens text ! 1) (lineTokens text ! 2), None)"
proof -
  have tok: "length (lineTokens text) = 3" "lineTokens text ! 0 = packageName"
    using assms(2) by (simp_all add: matchingLine_def)
  then have ne: "Trim text [CHR '' '', CHR 0x27] \<noteq> []"
    by (auto simp: lineTokens_Trim)
  show ?thesis
    using assms(1) tok ne
    by (subst rpmScan.simps)
       (simp add: lineTokens_Trim [symmetric] Let_def rpmVersion_def beforeLast_LastIndex)
qed

lemma qualifyingLine_not_Nil: "qualifyingLine packageName (dropCR l) \<Longrightarrow> l \<noteq> []"
  by (auto simp: qualifyingLine_def matchingLine_def lineTokens_Trim dropCR_def Trim_def)

lemma matchingLine_not_Nil: "matchingLine packageName (dropCR l) \<Longrightarrow> l \<noteq> []"
  by (auto simp: matchingLine_def lineTokens_Trim dropCR_def Trim_def)

lemma Scan_ScanLines_head:
  assumes "Split input LF = l # post" "length l < MaxScanTokenSize" "l \<noteq> [] \<or> post \<noteq> []"
  shows "\<exists>rest. Scan ScanLines input = Token (dropCR l) rest \<and>
           (post = [] \<and> rest = [] \<or> post \<noteq> [] \<and> Split rest LF = post)"
proof (cases post)
  case Nil
  with assms(1) have "input = l" "LF \<notin> set l"
    using Split_single by blast+
  with assms Nil show ?thesis
    using Scan_ScanLines_last by auto
next
  case (Cons l' ls)
  with assms(1) obtain rest where "input = l @ LF # rest" "LF \<notin> set l" "Split rest LF = l' # ls"
    using Split_Cons2 by blast
  with assms(2) Cons show ?thesis
    using Scan_ScanLines_line by auto
qed

lemma Scan_ScanLines_too_long:
  assumes "LF \<notin> set l" "MaxScanTokenSize \<le> length l"
  shows "Scan ScanLines (l @ rest) = Stop (Some ErrTooLong)"
proof -
  have w: "take MaxScanTokenSize (l @ rest) = take MaxScanTokenSize l"
    using assms(2) by simp
  have "LF \<notin> set (take MaxScanTokenSize l)"
    using assms(1) by (auto dest: in_set_takeD)
  then have "Index (take MaxScanTokenSize l) [LF] = None"
    by (rule Index_byte_None)
  then have "Index (take MaxScanTokenSize (l @ rest)) [LF] = None"
    by (simp only: w)
  then show ?thesis
    using assms(2) by (simp add: Scan_def ScanLines_def del: take_append)
qed

lemma parseDpkgOutput_too_long:
  assumes "LF \<notin> set l" "MaxScanTokenSize \<le> length l"
  shows "parseDpkgOutput packageName (l @ rest) None = Inl ErrTooLong"
  using Scan_ScanLines_too_long [OF assms, of rest]
  by (simp add: parseDpkgOutput_def dpkgScan.simps)

lemma dpkgScan_Nil: "dpkgScan packageName [] = ([], None)"
  by (subst dpkgScan.simps) (simp add: Scan_ScanLines_Nil)

lemma rpmScan_Nil: "rpmScan packageName [] = ([], None)"
  by (subst rpmScan.simps) (simp add: Scan_ScanLines_Nil)

lemma dpkgScan_first:
  assumes "Split input LF = pre @ l # post"
    and "\<forall>p\<in>set pre. length p < MaxScanTokenSize \<and> \<not> qualifyingLine packageName (dropCR p)"
    and "length l < MaxScanTokenSize"
    and "qualifyingLine packageName (dropCR l)"
  shows "dpkgScan packageName input = (dpkgVersion (lineTokens (dropCR l) ! 2), None)"
  using assms(1,2)
proof (induction pre arbitrary: input)
  case Nil
  then have "Split input LF = l # post" by simp
  moreover have "l \<noteq> []" using assms(4) by (rule qualifyingLine_not_Nil)
  ultimately obtain rest where "Scan ScanLines input = Token (dropCR l) rest"
    using Scan_ScanLines_head assms(3) by blast
  then show ?case using assms(4) by (rule dpkgScan_hit)
next
  case (Cons p pre)
  have sp: "Split input LF = p # (pre @ l # post)" using Cons.prems(1) by simp
  have p: "length p < MaxScanTokenSize" "\<not> qualifyingLine packageName (dropCR p)"
    using Cons.prems(2) by simp_all
  obtain rest where sc: "Scan ScanLines input = Token (dropCR p) rest"
    and rest: "Split rest LF = pre @ l # post"
    using Scan_ScanLines_head [OF sp p(1)] by auto
  have "dpkgScan packageName input = dpkgScan packageName rest"
    using sc p(2) by (rule dpkgScan_skip)
  also have "\<dots> = (dpkgVersion (lineTokens (dropCR l) ! 2), None)"
    using Cons.IH [OF rest] Cons.prems(2) by simp
  finally show ?case .
qed

lemma dpkgScan_none:
  assumes "\<forall>l\<in>set (Split input LF). length l < MaxScanTokenSize \<and> \<not> qualifyingLine packageName (dropCR l)"
  shows "dpkgScan packageName input = ([], None)"
  using assms
proof (induction "Split input LF" arbitrary: input)
  case Nil
  then show ?case using Split_not_Nil [of input LF] by simp
next
  case (Cons l post)
  have sp: "Split input LF = l # post" using Cons.hyps(2) by simp
  have l: "length l < MaxScanTokenSize" "\<not> qualifyingLine packageName (dropCR l)"
    using Cons.prems sp by simp_all
  show ?case
  proof (cases "l = [] \<and> post = []")
    case True
    with sp have "input = []" using Split_single by blast
    then show ?thesis by (simp add: dpkgScan_Nil)
  next
    case False
    then obtain rest where sc: "Scan ScanLines input = Token (dropCR l) rest"
      and rest: "post = [] \<and> rest = [] \<or> post \<noteq> [] \<and> Split rest LF = post"
      using Scan_ScanLines_head [OF sp l(1)] by auto
    have step: "dpkgScan packageName input = dpkgScan packageName rest"
      using sc l(2) by (rule dpkgScan_skip)
    from rest show ?thesis
    proof
      assume "post = [] \<and> rest = []"
      then show ?thesis using step by (simp add: dpkgScan_Nil)
    next
      assume r: "post \<noteq> [] \<and> Split rest LF = post"
      then have "post = Split rest LF" by simp
      moreover have "\<forall>l\<in>set (Split rest LF). length l < MaxScanTokenSize \<and> \<not> qualifyingLine packageName (dropCR l)"
        using Cons.prems sp r by simp
      ultimately have "dpkgScan packageName rest = ([], None)" by (rule Cons.hyps(1))
      then show ?thesis using step by simp
    qed
  qed
qed

lemma rpmScan_first:
  assumes "Split input LF = pre @ l # post"
    and "\<forall>p\<in>set pre. length p < MaxScanTokenSize \<and> \<not> matchingLine packageName (dropCR p)"
    and "length l < MaxScanTokenSize"
    and "matchingLine packageName (dropCR l)"
  shows "rpmScan packageName input =
    (rpmVersion (lineTokens (dropCR l) ! 1) (lineTokens (dropCR l) ! 2), None)"
  using assms(1,2)
proof (induction pre arbitrary: input)
  case Nil
  then have "Split input LF = l # post" by simp
  moreover have "l \<noteq> []" using assms(4) by (rule matchingLine_not_Nil)
  ultimately obtain rest where "Scan ScanLines input = Token (dropCR l) rest"
    using Scan_ScanLines_head assms(3) by blast
  then show ?case using assms(4) by (rule rpmScan_hit)
next
  case (Cons p pre)
  have sp: "Split input LF = p # (pre @ l # post)" using Cons.prems(1) by simp
  have p: "length p < MaxScanTokenSize" "\<not> matchingLine packageName (dropCR p)"
    using Cons.prems(2) by simp_all
  obtain rest where sc: "Scan ScanLines input = Token (dropCR p) rest"
    and rest: "Split rest LF = pre @ l # post"
    using Scan_ScanLines_head [OF sp p(1)] by auto
  have "rpmScan packageName input = rpmScan packageName rest"
    using sc p(2) by (rule rpmScan_skip)
  also have "\<dots> = (rpmVersion (lineTokens (dropCR l) ! 1) (lineTokens (dropCR l) ! 2), None)"
    using Cons.IH [OF rest] Cons.prems(2) by simp
  finally show ?case .
qed

lemmas parser_eval =
  Scan_def ScanLines_def MaxScanTokenSize_def Trim_def dropCR_def ReplaceAll_def
  lineTokens_Trim matchingLine_def qualifyingLine_def dpkgVersion_def rpmVersion_def
  beforeLast_def afterFirst_def beforeDfsg_def

lemma rpmVersion_not_Nil: "rpmVersion version release \<noteq> []"
  by (simp add: rpmVersion_def)


section \<open>Families and the loop over the catalogue\<close>





lemma scrapeLoop_map_filter:
  "scrapeLoop pkgFunc names toReturn probed =
     (toReturn @ List.map_filter (installed pkgFunc) names, probed @ names)"
  by (induction names arbitrary: toReturn probed)
     (auto simp: installed_def map_filter_simps split: sum.splits)

lemma lowerByte_prefixes:
  "p \<in> set debianPrefixes \<or> p \<in> set rhelPrefixes \<Longrightarrow> map lowerByte p = p"
  by (auto simp: debianPrefixes_def rhelPrefixes_def lowerByte_def)

lemma ToLower_ascii:
  "list_all (\<lambda>c. (of_char c :: nat) < RuneSelf) name \<Longrightarrow> ToLower u name = map lowerByte name"
  by (simp add: ToLower_def)


lemma eq_char_of_iff: "c = char_of n \<longleftrightarrow> take_bit 8 n = of_char c"
  using char_of_eq_iff [of n c] by auto

lemmas lower_eval = ToLower_def RuneSelf_def lowerByte_def char_of_eq_iff eq_char_of_iff

lemma map_filter_append:
  "List.map_filter f (xs @ ys) = List.map_filter f xs @ List.map_filter f ys"
  by (simp add: List.map_filter_def)





















section \<open>The lines of the identity file\<close>

lemma Index_byte_split:
  "Index s [c] = Some i \<Longrightarrow> s = take i s @ c # drop (Suc i) s \<and> c \<notin> set (take i s)"
proof (induction s arbitrary: i)
  case Nil
  then show ?case by simp
next
  case (Cons x s)
  show ?case
  proof (cases "x = c")
    case True
    with Cons.prems show ?thesis by simp
  next
    case False
    with Cons.prems obtain j where j: "Index s [c] = Some j" "i = Suc j"
      by auto
    from Cons.IH [OF j(1)] show ?thesis
      using False j(2) by auto
  qed
qed

lemma Scan_customSplitFunc_Nil: "Scan customSplitFunc [] = Stop None"
  by (simp add: Scan_def customSplitFunc_def MaxScanTokenSize_def)

lemma Scan_customSplitFunc_whole:
  assumes "LF \<notin> set input" "input \<noteq> []" "length input < MaxScanTokenSize"
  shows "Scan customSplitFunc input = Token input []"
  using assms by (simp add: Scan_def customSplitFunc_def Index_byte_None)

lemma Scan_customSplitFunc_line:
  assumes "Scan customSplitFunc input = Token tok rest"
  shows "tok \<in> set (Split input LF) \<and> (rest = [] \<or> set (Split rest LF) \<subseteq> set (Split input LF))"
proof (cases "Index (take MaxScanTokenSize input) [LF]")
  case None
  with assms have "tok = input" "rest = []"
    by (auto simp: Scan_def customSplitFunc_def split: if_splits)
  moreover have "LF \<notin> set input"
    using None assms by (auto simp: Scan_def customSplitFunc_def Index_byte split: if_splits)
  ultimately show ?thesis by (simp add: Split_last)
next
  case (Some i)
  let ?w = "take MaxScanTokenSize input"
  from Some assms have t: "tok = take i ?w" and r: "rest = drop (Suc i) input"
    by (auto simp: Scan_def customSplitFunc_def)
  from Index_byte_split [OF Some]
  have w': "?w = take i ?w @ LF # drop (Suc i) ?w" and n': "LF \<notin> set (take i ?w)"
    by blast+
  have w: "?w = tok @ LF # drop (Suc i) ?w" unfolding t by (rule w')
  have n: "LF \<notin> set tok" unfolding t by (rule n')
  have i: "i < length ?w" using Some by (rule Index_less_length) simp
  have len: "length tok = i" unfolding t using i by simp
  have "Suc i \<le> MaxScanTokenSize" using i by simp
  then have "take (Suc i) input = take (Suc i) ?w" by (simp add: min_def)
  also have "\<dots> = take (Suc i) (tok @ LF # drop (Suc i) ?w)"
    by (rule arg_cong [OF w])
  also have "\<dots> = tok @ [LF]" using len by simp
  finally have "take (Suc i) input = tok @ [LF]" .
  then have "input = (tok @ [LF]) @ rest"
    using r append_take_drop_id [of "Suc i" input] by simp
  then have "Split input LF = tok # Split rest LF"
    using n by (simp add: Split_line)
  then show ?thesis by auto
qed

lemma instanceIDScan_Nil: "instanceIDScan u [] = []"
  by (subst instanceIDScan.simps) (simp add: Scan_customSplitFunc_Nil)

lemma instanceIDScan_skip:
  assumes "Scan customSplitFunc input = Token tok rest" "\<not> identityLine tok"
  shows "instanceIDScan u input = instanceIDScan u rest"
  using assms by (subst instanceIDScan.simps) (auto simp: identityLine_def Let_def)

lemma instanceIDScan_hit:
  assumes "Scan customSplitFunc input = Token tok rest" "identityLine tok"
  shows "instanceIDScan u input = TrimSpace u (Split tok (CHR '':'') ! 1)"
  using assms by (subst instanceIDScan.simps) (auto simp: identityLine_def Let_def)

lemma instanceIDScan_no_line:
  "\<forall>l\<in>set (Split input LF). \<not> identityLine l \<Longrightarrow> instanceIDScan u input = []"
proof (induction input rule: length_induct)
  case (1 input)
  show ?case
  proof (cases "Scan customSplitFunc input")
    case (Stop err)
    then show ?thesis by (subst instanceIDScan.simps) simp
  next
    case (Token tok rest)
    from Scan_customSplitFunc_line [OF Token]
    have t: "tok \<in> set (Split input LF)"
      and r: "rest = [] \<or> set (Split rest LF) \<subseteq> set (Split input LF)"
      by simp_all
    have "\<not> identityLine tok" using t "1.prems" by blast
    with Token have step: "instanceIDScan u input = instanceIDScan u rest"
      by (rule instanceIDScan_skip)
    have shorter: "length rest < length input"
      using Token by (rule Scan_customSplitFunc_shorter)
    from r show ?thesis
    proof
      assume "rest = []"
      then show ?thesis using step by (simp add: instanceIDScan_Nil)
    next
      assume "set (Split rest LF) \<subseteq> set (Split input LF)"
      then have "\<forall>l\<in>set (Split rest LF). \<not> identityLine l"
        using "1.prems" by blast
      then have "instanceIDScan u rest = []"
        using "1.IH" shorter by blast
      then show ?thesis using step by simp
    qed
  qed
qed

lemma uuidChars_set: "uuidChars i s \<Longrightarrow> set s \<subseteq> set ''0123456789abcdef-''"
proof (induction s arbitrary: i)
  case Nil
  then show ?case by simp
next
  case (Cons c cs)
  then have c: "c = CHR ''-'' \<or> c \<in> set ''0123456789abcdef''" and cs: "uuidChars (i + 1) cs"
    by (auto split: if_splits)
  from Cons.IH [OF cs] c show ?case by auto
qed

lemma uuid_byte:
  assumes "c \<in> set ''0123456789abcdef-''"
  shows "(of_char c :: nat) < RuneSelf" "\<not> asciiSpace c"
  using assms by (auto simp: RuneSelf_def asciiSpace_def)

lemma skipSpace_stays:
  assumes "s \<noteq> []" "(of_char (hd s) :: nat) < RuneSelf" "\<not> asciiSpace (hd s)"
  shows "skipSpace s = (s, False)"
  using assms by (cases s) auto

lemma TrimSpace_space_word:
  assumes "s \<noteq> []" "\<forall>c\<in>set s. (of_char c :: nat) < RuneSelf \<and> \<not> asciiSpace c"
  shows "TrimSpace u (CHR '' '' # s) = s"
proof -
  have h: "hd s \<in> set s" "hd (rev s) \<in> set s"
    using assms(1) by (simp_all add: hd_rev)
  have 1: "skipSpace (CHR '' '' # s) = (s, False)"
    using assms h(1) by (simp add: skipSpace_stays RuneSelf_def asciiSpace_def)
  have 2: "skipSpace (rev s) = (rev s, False)"
    using assms h(2) by (intro skipSpace_stays) auto
  show ?thesis by (simp add: TrimSpace_def 1 2 del: skipSpace.simps)
qed

lemma isUUID_props:
  assumes "isUUID s"
  shows "s \<noteq> []" "length s = 36" "\<forall>c\<in>set s. (of_char c :: nat) < RuneSelf \<and> \<not> asciiSpace c"
    "CHR '':'' \<notin> set s" "LF \<notin> set s"
proof -
  show "length s = 36" using assms by (simp add: isUUID_def)
  then show "s \<noteq> []" by auto
  have "uuidChars 0 s" using assms by (simp add: isUUID_def)
  then have sub: "set s \<subseteq> set ''0123456789abcdef-''"
    by (rule uuidChars_set)
  show "\<forall>c\<in>set s. (of_char c :: nat) < RuneSelf \<and> \<not> asciiSpace c"
  proof (intro ballI conjI)
    fix c assume "c \<in> set s"
    then have c: "c \<in> set ''0123456789abcdef-''" by (rule subsetD [OF sub])
    show "(of_char c :: nat) < RuneSelf" by (rule uuid_byte(1) [OF c])
    show "\<not> asciiSpace c" by (rule uuid_byte(2) [OF c])
  qed
  show "CHR '':'' \<notin> set s"
  proof
    assume "CHR '':'' \<in> set s"
    then have "CHR '':'' \<in> set ''0123456789abcdef-''" by (rule subsetD [OF sub])
    then show False by simp
  qed
  show "LF \<notin> set s"
  proof
    assume "LF \<in> set s"
    then have "LF \<in> set ''0123456789abcdef-''" by (rule subsetD [OF sub])
    then show False by simp
  qed
qed

lemma instanceIDScan_created:
  assumes "isUUID s"
  shows "instanceIDScan u (instanceIDKey @ '': '' @ s) = s"
proof -
  let ?content = "instanceIDKey @ '': '' @ s"
  note p = isUUID_props [OF assms]
  have "LF \<notin> set ?content" using p(5) by (simp add: instanceIDKey_def)
  moreover have "?content \<noteq> []" by (simp add: instanceIDKey_def)
  moreover have "length ?content < MaxScanTokenSize"
    using p(2) by (simp add: instanceIDKey_def MaxScanTokenSize_def)
  ultimately have sc: "Scan customSplitFunc ?content = Token ?content []"
    by (rule Scan_customSplitFunc_whole)
  have "?content = instanceIDKey @ CHR '':'' # (CHR '' '' # s)" by simp
  moreover have "CHR '':'' \<notin> set instanceIDKey" by (simp add: instanceIDKey_def)
  ultimately have "Split ?content (CHR '':'') = instanceIDKey # Split (CHR '' '' # s) (CHR '':'')"
    using Split_line by metis
  also have "Split (CHR '' '' # s) (CHR '':'') = [CHR '' '' # s]"
    using p(4) by (intro Split_last) simp
  finally have parts: "Split ?content (CHR '':'') = [instanceIDKey, CHR '' '' # s]" .
  then have "identityLine ?content" by (simp add: identityLine_def)
  with sc have "instanceIDScan u ?content = TrimSpace u (Split ?content (CHR '':'') ! 1)"
    by (rule instanceIDScan_hit)
  also have "\<dots> = TrimSpace u (CHR '' '' # s)" by (simp only: parts) simp
  also have "\<dots> = s" using p(1,3) by (rule TrimSpace_space_word)
  finally show ?thesis .
qed

lemmas host_eval =
  getInstanceID_def createTelemetryFile_def Open_def Stat_Size_def Let_def

section \<open>The claims about the output parsers\<close>

text \<open>
  Claim C1, as the specification states it: for the queried name \<open>pkgA\<close> and the output
  \<open>pkgA 8.1.0 1.1.el8\<close> the rpm parser returns the version \<open>8.1.0-1-1-el8\<close>.
  It does not: the parser returns another package.
\<close>

theorem parseRpmOutput_example_literal:
  "parseRpmOutput ''pkgA'' ''pkgA 8.1.0 1.1.el8'' None
     \<noteq> Inr \<lparr>Name = ''pkgA'', Version = ''8.1.0-1-1-el8''\<rparr>"
  by (simp add: parseRpmOutput_def rpmScan.simps parser_eval)

text \<open>
  Claim C1, amended: for the queried name \<open>pkgA\<close> and the output \<open>pkgA 8.1.0 1.1.el8\<close>,
  with no error of the runner, the rpm parser returns the version \<open>8.1.0-1-1\<close>.  In
  general the first line with three tokens and the queried name decides: the part of its
  release token after the last dot is dropped together with that dot, every dot left is
  replaced by a dash, and the version token and the release so transformed are joined
  with a dash.  The lines before it are shorter than the scanner's buffer.
\<close>

theorem parseRpmOutput_release_transform:
  "parseRpmOutput ''pkgA'' ''pkgA 8.1.0 1.1.el8'' None
     = Inr \<lparr>Name = ''pkgA'', Version = ''8.1.0-1-1''\<rparr>
   \<and> (Split rpmOutput LF = pre @ l # post
        \<and> (\<forall>p\<in>set pre. length p < MaxScanTokenSize \<and> \<not> matchingLine packageName (dropCR p))
        \<and> length l < MaxScanTokenSize \<and> matchingLine packageName (dropCR l)
      \<longrightarrow> parseRpmOutput packageName rpmOutput None
            = Inr \<lparr>Name = packageName,
                   Version = lineTokens (dropCR l) ! 1 @ ''-'' @
                     ReplaceAll (beforeLast (CHR ''.'') (lineTokens (dropCR l) ! 2))
                       (CHR ''.'') (CHR ''-'')\<rparr>)"
proof (intro conjI impI)
  show "parseRpmOutput ''pkgA'' ''pkgA 8.1.0 1.1.el8'' None
     = Inr \<lparr>Name = ''pkgA'', Version = ''8.1.0-1-1''\<rparr>"
    by (simp add: parseRpmOutput_def rpmScan.simps parser_eval)
next
  assume a: "Split rpmOutput LF = pre @ l # post
        \<and> (\<forall>p\<in>set pre. length p < MaxScanTokenSize \<and> \<not> matchingLine packageName (dropCR p))
        \<and> length l < MaxScanTokenSize \<and> matchingLine packageName (dropCR l)"
  then have "rpmScan packageName rpmOutput =
    (rpmVersion (lineTokens (dropCR l) ! 1) (lineTokens (dropCR l) ! 2), None)"
    using rpmScan_first [of rpmOutput pre l post packageName] by blast
  then show "parseRpmOutput packageName rpmOutput None
            = Inr \<lparr>Name = packageName,
                   Version = lineTokens (dropCR l) ! 1 @ ''-'' @
                     ReplaceAll (beforeLast (CHR ''.'') (lineTokens (dropCR l) ! 2))
                       (CHR ''.'') (CHR ''-'')\<rparr>"
    by (simp add: parseRpmOutput_def rpmVersion_def)
qed

text \<open>
  The amended claim C1 at a second line of the output, after a line of another package.
\<close>

theorem parseRpmOutput_release_transform_witness:
  "Split (''other 1.0 2.el9'' @ LF # ''pkgB 8.0.36 28.1.el9'') LF
      = [''other 1.0 2.el9''] @ ''pkgB 8.0.36 28.1.el9'' # []
   \<and> matchingLine ''pkgB'' (dropCR ''pkgB 8.0.36 28.1.el9'')
   \<and> parseRpmOutput ''pkgB'' (''other 1.0 2.el9'' @ LF # ''pkgB 8.0.36 28.1.el9'') None
      = Inr \<lparr>Name = ''pkgB'', Version = ''8.0.36-28-1''\<rparr>"
proof -
  have 1: "Split (''other 1.0 2.el9'' @ LF # ''pkgB 8.0.36 28.1.el9'') LF
      = [''other 1.0 2.el9''] @ ''pkgB 8.0.36 28.1.el9'' # []"
    by simp
  have 2: "\<forall>p\<in>set [''other 1.0 2.el9''].
      length p < MaxScanTokenSize \<and> \<not> matchingLine ''pkgB'' (dropCR p)"
    by (simp add: parser_eval)
  have 3: "length ''pkgB 8.0.36 28.1.el9'' < MaxScanTokenSize"
    by (simp add: MaxScanTokenSize_def)
  have 4: "matchingLine ''pkgB'' (dropCR ''pkgB 8.0.36 28.1.el9'')"
    by (simp add: parser_eval)
  have 5: "lineTokens (dropCR ''pkgB 8.0.36 28.1.el9'') = [''pkgB'', ''8.0.36'', ''28.1.el9'']"
    by (simp add: parser_eval)
  show ?thesis
    using parseRpmOutput_release_transform
      [where rpmOutput = "''other 1.0 2.el9'' @ LF # ''pkgB 8.0.36 28.1.el9''"
         and pre = "[''other 1.0 2.el9'']" and l = "''pkgB 8.0.36 28.1.el9''" and post = "[]"
         and packageName = "''pkgB''"]
      1 2 3 4
    by (simp add: 5 ReplaceAll_def beforeLast_def)
qed

text \<open>
  Claim C2, as the specification states it: in the output of dpkg the first qualifying
  line wins.  It does not when a line before it fills the buffer of the scanner: the
  output below has a first line of 65536 bytes that does not qualify and a second line
  that does, and the parser returns the error of the scanner, not the package.
\<close>

theorem parseDpkgOutput_long_line_first:
  "Split (replicate MaxScanTokenSize (CHR ''#'') @ LF # ''pkgA ii 2:8.1.0-1-1.jammy'') LF
      = [replicate MaxScanTokenSize (CHR ''#''), ''pkgA ii 2:8.1.0-1-1.jammy'']
   \<and> \<not> qualifyingLine ''pkgA'' (replicate MaxScanTokenSize (CHR ''#''))
   \<and> qualifyingLine ''pkgA'' ''pkgA ii 2:8.1.0-1-1.jammy''
   \<and> parseDpkgOutput ''pkgA''
        (replicate MaxScanTokenSize (CHR ''#'') @ LF # ''pkgA ii 2:8.1.0-1-1.jammy'') None
      = Inl ErrTooLong
   \<and> parseDpkgOutput ''pkgA''
        (replicate MaxScanTokenSize (CHR ''#'') @ LF # ''pkgA ii 2:8.1.0-1-1.jammy'') None
      \<noteq> Inr \<lparr>Name = ''pkgA'', Version = ''8.1.0-1-1''\<rparr>"
proof -
  let ?long = "replicate MaxScanTokenSize (CHR ''#'')"
  have lf: "LF \<notin> set ?long" by simp
  have "Split ''pkgA ii 2:8.1.0-1-1.jammy'' LF = [''pkgA ii 2:8.1.0-1-1.jammy'']"
    by simp
  then have 1: "Split (?long @ LF # ''pkgA ii 2:8.1.0-1-1.jammy'') LF
      = [?long, ''pkgA ii 2:8.1.0-1-1.jammy'']"
    using Split_line [OF lf, of "''pkgA ii 2:8.1.0-1-1.jammy''"] by (simp only:)
  have "Trim ?long [CHR '' '', CHR 0x27] = ?long"
    by (simp add: Trim_def)
  moreover have "Split ?long (CHR '' '') = [?long]"
    by (rule Split_last) simp
  ultimately have "lineTokens ?long = [?long]"
    by (simp only: lineTokens_Trim)
  then have 2: "\<not> qualifyingLine ''pkgA'' ?long"
    by (simp add: qualifyingLine_def matchingLine_def)
  have 3: "qualifyingLine ''pkgA'' ''pkgA ii 2:8.1.0-1-1.jammy''"
    by (simp add: parser_eval)
  have 4: "parseDpkgOutput ''pkgA'' (?long @ LF # ''pkgA ii 2:8.1.0-1-1.jammy'') None
      = Inl ErrTooLong"
    by (rule parseDpkgOutput_too_long [OF lf]) simp
  show ?thesis
    using 1 2 3 4 by simp
qed

text \<open>
  Claim C2, amended: the dpkg parser, with no error of the runner, scans line by line.
  A line qualifies when, without the spaces and quote characters at its two ends, it
  splits on single spaces into exactly three tokens, the first the queried name and the
  second \<open>ii\<close>.  Provided that the qualifying line and every line before it are shorter
  than the 65536 bytes of the scanner's buffer, the first qualifying line wins and
  scanning stops there, whatever follows: from its version token the part after the last
  dot goes, then the epoch up to the first colon, then everything from \<open>+dfsg\<close> on, and
  what remains is the version of the package (an empty remainder is the not-found
  outcome).  The output \<open>pkgA ii 2:8.1.0-1-1.jammy\<close> gives the version \<open>8.1.0-1-1\<close>,
  also between the quote characters that \<open>dpkg-query\<close> prints around it and between
  blanks, and a sole line of three tokens, shorter than the buffer, with a status other
  than \<open>ii\<close> gives the not-found outcome.
\<close>

theorem parseDpkgOutput_first_qualifying_line:
  "(Split dpkgOutput LF = pre @ l # post
      \<and> (\<forall>p\<in>set pre. length p < MaxScanTokenSize \<and> \<not> qualifyingLine packageName (dropCR p))
      \<and> length l < MaxScanTokenSize \<and> qualifyingLine packageName (dropCR l)
    \<longrightarrow> parseDpkgOutput packageName dpkgOutput None
          = (if dpkgVersion (lineTokens (dropCR l) ! 2) = [] then Inl errPackageNotFound
             else Inr \<lparr>Name = packageName, Version = dpkgVersion (lineTokens (dropCR l) ! 2)\<rparr>))
   \<and> parseDpkgOutput ''pkgA'' ''pkgA ii 2:8.1.0-1-1.jammy'' None
       = Inr \<lparr>Name = ''pkgA'', Version = ''8.1.0-1-1''\<rparr>
   \<and> parseDpkgOutput ''pkgA'' (CHR 0x27 # ''pkgA ii 2:8.1.0-1-1.jammy'' @ [CHR 0x27]) None
       = Inr \<lparr>Name = ''pkgA'', Version = ''8.1.0-1-1''\<rparr>
   \<and> parseDpkgOutput ''pkgA'' ('' '' @ CHR 0x27 # '' pkgA ii 2:8.1.0-1-1.jammy '' @ [CHR 0x27, CHR '' '']) None
       = Inr \<lparr>Name = ''pkgA'', Version = ''8.1.0-1-1''\<rparr>
   \<and> (Split soleOutput LF = [sole] \<and> length sole < MaxScanTokenSize
      \<and> length (lineTokens (dropCR sole)) = 3 \<and> lineTokens (dropCR sole) ! 1 \<noteq> ''ii''
    \<longrightarrow> parseDpkgOutput queried soleOutput None = Inl errPackageNotFound)"
proof (intro conjI impI)
  assume "Split dpkgOutput LF = pre @ l # post
      \<and> (\<forall>p\<in>set pre. length p < MaxScanTokenSize \<and> \<not> qualifyingLine packageName (dropCR p))
      \<and> length l < MaxScanTokenSize \<and> qualifyingLine packageName (dropCR l)"
  then have "dpkgScan packageName dpkgOutput = (dpkgVersion (lineTokens (dropCR l) ! 2), None)"
    using dpkgScan_first [of dpkgOutput pre l post packageName] by blast
  then show "parseDpkgOutput packageName dpkgOutput None
          = (if dpkgVersion (lineTokens (dropCR l) ! 2) = [] then Inl errPackageNotFound
             else Inr \<lparr>Name = packageName, Version = dpkgVersion (lineTokens (dropCR l) ! 2)\<rparr>)"
    by (simp add: parseDpkgOutput_def)
next
  show "parseDpkgOutput ''pkgA'' ''pkgA ii 2:8.1.0-1-1.jammy'' None
       = Inr \<lparr>Name = ''pkgA'', Version = ''8.1.0-1-1''\<rparr>"
    by (simp add: parseDpkgOutput_def dpkgScan.simps parser_eval)
next
  show "parseDpkgOutput ''pkgA'' (CHR 0x27 # ''pkgA ii 2:8.1.0-1-1.jammy'' @ [CHR 0x27]) None
       = Inr \<lparr>Name = ''pkgA'', Version = ''8.1.0-1-1''\<rparr>"
    by (simp add: parseDpkgOutput_def dpkgScan.simps parser_eval)
next
  show "parseDpkgOutput ''pkgA'' ('' '' @ CHR 0x27 # '' pkgA ii 2:8.1.0-1-1.jammy '' @ [CHR 0x27, CHR '' '']) None
       = Inr \<lparr>Name = ''pkgA'', Version = ''8.1.0-1-1''\<rparr>"
    by (simp add: parseDpkgOutput_def dpkgScan.simps parser_eval)
next
  assume a: "Split soleOutput LF = [sole] \<and> length sole < MaxScanTokenSize
      \<and> length (lineTokens (dropCR sole)) = 3 \<and> lineTokens (dropCR sole) ! 1 \<noteq> ''ii''"
  then have "\<forall>l\<in>set (Split soleOutput LF).
      length l < MaxScanTokenSize \<and> \<not> qualifyingLine queried (dropCR l)"
    by (simp add: qualifyingLine_def)
  then have "dpkgScan queried soleOutput = ([], None)"
    by (rule dpkgScan_none)
  then show "parseDpkgOutput queried soleOutput None = Inl errPackageNotFound"
    by (simp add: parseDpkgOutput_def)
qed

text \<open>
  The amended claim C2 where a later line qualifies too, every line between the quote
  characters that \<open>dpkg-query\<close> prints: the queried package is listed as removed, then
  as installed with an epoch and a \<open>+dfsg\<close> suffix, then as installed once more; the
  second line decides.  A sole line with the status \<open>rc\<close> gives the not-found outcome.
\<close>

theorem parseDpkgOutput_first_qualifying_line_witness:
  "Split (quoted ''pkgA rc 1.0-1.focal'' @ LF # quoted ''pkgA ii 2:8.1.0+dfsg-1.jammy''
            @ LF # quoted ''pkgA ii 9.9.9-1.jammy'') LF
      = [quoted ''pkgA rc 1.0-1.focal''] @ quoted ''pkgA ii 2:8.1.0+dfsg-1.jammy''
          # [quoted ''pkgA ii 9.9.9-1.jammy'']
   \<and> lineTokens (quoted ''pkgA ii 2:8.1.0+dfsg-1.jammy'') = [''pkgA'', ''ii'', ''2:8.1.0+dfsg-1.jammy'']
   \<and> qualifyingLine ''pkgA'' (dropCR (quoted ''pkgA ii 2:8.1.0+dfsg-1.jammy''))
   \<and> parseDpkgOutput ''pkgA''
        (quoted ''pkgA rc 1.0-1.focal'' @ LF # quoted ''pkgA ii 2:8.1.0+dfsg-1.jammy''
           @ LF # quoted ''pkgA ii 9.9.9-1.jammy'') None
      = Inr \<lparr>Name = ''pkgA'', Version = ''8.1.0''\<rparr>
   \<and> Split (quoted ''pkgA rc 1.0-1.focal'') LF = [quoted ''pkgA rc 1.0-1.focal'']
   \<and> parseDpkgOutput ''pkgA'' (quoted ''pkgA rc 1.0-1.focal'') None = Inl errPackageNotFound"
proof -
  let ?l0 = "quoted ''pkgA rc 1.0-1.focal''"
  let ?l1 = "quoted ''pkgA ii 2:8.1.0+dfsg-1.jammy''"
  let ?l2 = "quoted ''pkgA ii 9.9.9-1.jammy''"
  let ?out = "?l0 @ LF # ?l1 @ LF # ?l2"
  have t0: "lineTokens ?l0 = [''pkgA'', ''rc'', ''1.0-1.focal'']"
    and t1: "lineTokens ?l1 = [''pkgA'', ''ii'', ''2:8.1.0+dfsg-1.jammy'']"
    by (simp_all add: lineTokens_def trimmed_def trimChar_def quoted_def)
  have cr: "dropCR ?l0 = ?l0" "dropCR ?l1 = ?l1"
    by (simp_all add: dropCR_def quoted_def)
  have 1: "Split ?out LF = [?l0] @ ?l1 # [?l2]"
    by (simp add: quoted_def)
  have 2: "\<forall>p\<in>set [?l0]. length p < MaxScanTokenSize \<and> \<not> qualifyingLine ''pkgA'' (dropCR p)"
    by (simp add: cr qualifyingLine_def matchingLine_def t0) (simp add: quoted_def MaxScanTokenSize_def)
  have 3: "length ?l1 < MaxScanTokenSize"
    by (simp add: MaxScanTokenSize_def quoted_def)
  have 4: "qualifyingLine ''pkgA'' (dropCR ?l1)"
    by (simp add: cr qualifyingLine_def matchingLine_def t1)
  have 5: "dpkgVersion (lineTokens (dropCR ?l1) ! 2) = ''8.1.0''"
    by (simp add: cr t1) (simp add: parser_eval)
  have 6: "Split ?l0 LF = [?l0]"
    by (simp add: quoted_def)
  have 7: "length ?l0 < MaxScanTokenSize"
    by (simp add: MaxScanTokenSize_def quoted_def)
  have 8: "length (lineTokens (dropCR ?l0)) = 3" "lineTokens (dropCR ?l0) ! 1 \<noteq> ''ii''"
    by (simp_all add: cr t0)
  show ?thesis
    using parseDpkgOutput_first_qualifying_line
      [where dpkgOutput = ?out and pre = "[?l0]" and l = ?l1 and post = "[?l2]"
         and packageName = "''pkgA''" and soleOutput = ?l0 and sole = ?l0
         and queried = "''pkgA''"]
      1 2 3 4 6 7 8 t1
    by (simp add: 5)
qed

text \<open>
  Claim C9: whenever \<open>parseDpkgOutput\<close> or \<open>parseRpmOutput\<close> returns a package, whatever
  the output and the error of the runner, its name is the queried name and its version
  is not empty; and when the version computed from the first qualifying line of the dpkg
  output is empty after the three cuts, the result is the not-found sentinel.  (The
  version the rpm parser computes from a line holds a dash and is never empty.)
\<close>

theorem parsers_return_queried_name_and_version:
  "(parseDpkgOutput packageName dpkgOutput dpkgErr = Inr pkg
      \<longrightarrow> Name pkg = packageName \<and> Version pkg \<noteq> [])
   \<and> (parseRpmOutput packageName rpmOutput rpmErr = Inr pkg'
      \<longrightarrow> Name pkg' = packageName \<and> Version pkg' \<noteq> [])
   \<and> (Split out LF = pre @ l # post
      \<and> (\<forall>p\<in>set pre. length p < MaxScanTokenSize \<and> \<not> qualifyingLine packageName (dropCR p))
      \<and> length l < MaxScanTokenSize \<and> qualifyingLine packageName (dropCR l)
      \<and> dpkgVersion (lineTokens (dropCR l) ! 2) = []
      \<longrightarrow> parseDpkgOutput packageName out None = Inl errPackageNotFound)
   \<and> rpmVersion versionToken releaseToken \<noteq> []"
proof (intro conjI impI)
  assume "parseDpkgOutput packageName dpkgOutput dpkgErr = Inr pkg"
  then have "pkg = \<lparr>Name = packageName, Version = fst (dpkgScan packageName dpkgOutput)\<rparr>
      \<and> fst (dpkgScan packageName dpkgOutput) \<noteq> []"
    by (auto simp: parseDpkgOutput_def split: option.splits prod.splits if_splits)
  then show "Name pkg = packageName" and "Version pkg \<noteq> []"
    by simp_all
next
  assume "parseRpmOutput packageName rpmOutput rpmErr = Inr pkg'"
  then have "pkg' = \<lparr>Name = packageName, Version = fst (rpmScan packageName rpmOutput)\<rparr>
      \<and> fst (rpmScan packageName rpmOutput) \<noteq> []"
    by (auto simp: parseRpmOutput_def split: option.splits prod.splits if_splits)
  then show "Name pkg' = packageName" and "Version pkg' \<noteq> []"
    by simp_all
next
  assume a: "Split out LF = pre @ l # post
      \<and> (\<forall>p\<in>set pre. length p < MaxScanTokenSize \<and> \<not> qualifyingLine packageName (dropCR p))
      \<and> length l < MaxScanTokenSize \<and> qualifyingLine packageName (dropCR l)
      \<and> dpkgVersion (lineTokens (dropCR l) ! 2) = []"
  then have "dpkgScan packageName out = (dpkgVersion (lineTokens (dropCR l) ! 2), None)"
    using dpkgScan_first [of out pre l post packageName] by blast
  with a show "parseDpkgOutput packageName out None = Inl errPackageNotFound"
    by (simp add: parseDpkgOutput_def)
next
  show "rpmVersion versionToken releaseToken \<noteq> []"
    by (rule rpmVersion_not_Nil)
qed

text \<open>
  Claim C9 on a dpkg output and an rpm output that list the queried package, and on a
  dpkg line whose version token is cut down to nothing.
\<close>

theorem parsers_return_queried_name_and_version_witness:
  "parseDpkgOutput ''pkgA'' ''pkgA ii 1:2.3-4.jammy'' None = Inr \<lparr>Name = ''pkgA'', Version = ''2.3-4''\<rparr>
   \<and> Name \<lparr>Name = ''pkgA'', Version = ''2.3-4''\<rparr> = ''pkgA''
   \<and> Version \<lparr>Name = ''pkgA'', Version = ''2.3-4''\<rparr> \<noteq> []
   \<and> parseRpmOutput ''pkgA'' ''pkgA 2.3 4.el9'' None = Inr \<lparr>Name = ''pkgA'', Version = ''2.3-4''\<rparr>
   \<and> Split ''pkgA ii 7:.jammy'' LF = [] @ ''pkgA ii 7:.jammy'' # []
   \<and> qualifyingLine ''pkgA'' (dropCR ''pkgA ii 7:.jammy'')
   \<and> dpkgVersion (lineTokens (dropCR ''pkgA ii 7:.jammy'') ! 2) = []
   \<and> parseDpkgOutput ''pkgA'' ''pkgA ii 7:.jammy'' None = Inl errPackageNotFound"
proof -
  have 1: "parseDpkgOutput ''pkgA'' ''pkgA ii 1:2.3-4.jammy'' None
      = Inr \<lparr>Name = ''pkgA'', Version = ''2.3-4''\<rparr>"
    by (simp add: parseDpkgOutput_def dpkgScan.simps parser_eval)
  have 2: "parseRpmOutput ''pkgA'' ''pkgA 2.3 4.el9'' None
      = Inr \<lparr>Name = ''pkgA'', Version = ''2.3-4''\<rparr>"
    by (simp add: parseRpmOutput_def rpmScan.simps parser_eval)
  have 3: "Split ''pkgA ii 7:.jammy'' LF = [] @ ''pkgA ii 7:.jammy'' # []"
    by simp
  have 4: "length ''pkgA ii 7:.jammy'' < MaxScanTokenSize"
    by (simp add: MaxScanTokenSize_def)
  have 5: "qualifyingLine ''pkgA'' (dropCR ''pkgA ii 7:.jammy'')"
    by (simp add: parser_eval)
  have 6: "dpkgVersion (lineTokens (dropCR ''pkgA ii 7:.jammy'') ! 2) = []"
    by (simp add: parser_eval)
  show ?thesis
    using parsers_return_queried_name_and_version
      [where packageName = "''pkgA''" and dpkgOutput = "''pkgA ii 1:2.3-4.jammy''"
         and dpkgErr = None and pkg = "\<lparr>Name = ''pkgA'', Version = ''2.3-4''\<rparr>"
         and rpmOutput = "''pkgA 2.3 4.el9''" and rpmErr = None
         and pkg' = "\<lparr>Name = ''pkgA'', Version = ''2.3-4''\<rparr>"
         and out = "''pkgA ii 7:.jammy''" and pre = "[]" and l = "''pkgA ii 7:.jammy''"
         and post = "[]"]
      1 2 3 4 5 6
    by simp
qed

section \<open>The claims about the package scraper\<close>

text \<open>
  Claim C3: \<open>ScrapeInstalledPackages\<close> has no error to return; for every host
  information and every outcome of the probes it returns a sequence of packages.  On a
  supported family the sequence holds, in the order of the catalogue (the common names,
  then those of the family), the packages of exactly the probes that succeed, and every
  name of the catalogue is probed: a probe that fails, with the not-found sentinel or
  with any other error, only leaves its own package out, and a probe that succeeds adds
  its package between those found before and after it.
\<close>

theorem ScrapeInstalledPackages_best_effort:
  "ScrapeInstalledPackages u info run =
     (case detectFamily u (getOSInfo info) of
        DebianFamily \<Rightarrow>
          (List.map_filter (installed (queryDpkg run)) (getCommonPackages @ getDebianPackages),
           getCommonPackages @ getDebianPackages)
      | RhelFamily \<Rightarrow>
          (List.map_filter (installed (queryRpm run)) (getCommonPackages @ getRhelPackages),
           getCommonPackages @ getRhelPackages)
      | Unsupported \<Rightarrow> ([], []))
   \<and> (pkgFunc failing = Inl err
      \<longrightarrow> fst (scrapeLoop pkgFunc (before @ failing # after) [] [])
          = fst (scrapeLoop pkgFunc before [] []) @ fst (scrapeLoop pkgFunc after [] []))
   \<and> (pkgFunc found = Inr pkg
      \<longrightarrow> fst (scrapeLoop pkgFunc (before' @ found # after') [] [])
          = fst (scrapeLoop pkgFunc before' [] []) @ pkg # fst (scrapeLoop pkgFunc after' [] []))"
proof (intro conjI impI)
  show "ScrapeInstalledPackages u info run =
     (case detectFamily u (getOSInfo info) of
        DebianFamily \<Rightarrow>
          (List.map_filter (installed (queryDpkg run)) (getCommonPackages @ getDebianPackages),
           getCommonPackages @ getDebianPackages)
      | RhelFamily \<Rightarrow>
          (List.map_filter (installed (queryRpm run)) (getCommonPackages @ getRhelPackages),
           getCommonPackages @ getRhelPackages)
      | Unsupported \<Rightarrow> ([], []))"
    by (simp add: ScrapeInstalledPackages_def detectFamily_def Let_def scrapeLoop_map_filter)
next
  assume "pkgFunc failing = Inl err"
  then show "fst (scrapeLoop pkgFunc (before @ failing # after) [] [])
          = fst (scrapeLoop pkgFunc before [] []) @ fst (scrapeLoop pkgFunc after [] [])"
    by (simp add: scrapeLoop_map_filter map_filter_append map_filter_simps installed_def)
next
  assume "pkgFunc found = Inr pkg"
  then show "fst (scrapeLoop pkgFunc (before' @ found # after') [] [])
          = fst (scrapeLoop pkgFunc before' [] []) @ pkg # fst (scrapeLoop pkgFunc after' [] [])"
    by (simp add: scrapeLoop_map_filter map_filter_append map_filter_simps installed_def)
qed

text \<open>
  Claim C3 on a host of the rhel family where only \<open>etcd\<close> is installed and the probe of
  \<open>proxysql\<close> fails with an error that is not the sentinel: every name of the catalogue
  is probed and the result is the package \<open>etcd\<close> alone.
\<close>

theorem ScrapeInstalledPackages_best_effort_witness:
  "detectFamily plainUnicode (getOSInfo exampleHost) = RhelFamily
   \<and> ScrapeInstalledPackages plainUnicode exampleHost exampleRunner
       = ([\<lparr>Name = ''etcd'', Version = ''3.5.4-1''\<rparr>], getCommonPackages @ getRhelPackages)
   \<and> queryRpm exampleRunner ''proxysql'' = Inl (Err ''exit status 1'')
   \<and> fst (scrapeLoop (queryRpm exampleRunner) ([''etcd''] @ ''proxysql'' # [''etcd'']) [] [])
       = [\<lparr>Name = ''etcd'', Version = ''3.5.4-1''\<rparr>, \<lparr>Name = ''etcd'', Version = ''3.5.4-1''\<rparr>]
   \<and> queryRpm exampleRunner ''etcd'' = Inr \<lparr>Name = ''etcd'', Version = ''3.5.4-1''\<rparr>
   \<and> fst (scrapeLoop (queryRpm exampleRunner) ([''pmm2-client''] @ ''etcd'' # [''proxysql'']) [] [])
       = [\<lparr>Name = ''etcd'', Version = ''3.5.4-1''\<rparr>]"
proof -
  have etcd: "queryRpm exampleRunner ''etcd'' = Inr \<lparr>Name = ''etcd'', Version = ''3.5.4-1''\<rparr>"
    by (simp add: queryRpm_def exampleRunner_def parseRpmOutput_def rpmScan.simps parser_eval)
  have proxysql: "queryRpm exampleRunner ''proxysql'' = Inl (Err ''exit status 1'')"
    by (simp add: queryRpm_def exampleRunner_def parseRpmOutput_def Contains_def)
  have others: "\<exists>e. queryRpm exampleRunner pName = Inl e"
    if "pName \<noteq> ''etcd''" "pName \<noteq> ''proxysql''" for pName
    using that by (simp add: queryRpm_def exampleRunner_def parseRpmOutput_def)
  have absent: "installed (queryRpm exampleRunner) pName = None" if "pName \<noteq> ''etcd''" for pName
    using that others [of pName] by (cases "pName = ''proxysql''") (auto simp: installed_def proxysql)
  have present: "installed (queryRpm exampleRunner) ''etcd''
      = Some \<lparr>Name = ''etcd'', Version = ''3.5.4-1''\<rparr>"
    by (simp add: installed_def etcd)
  have found: "List.map_filter (installed (queryRpm exampleRunner)) (getCommonPackages @ getRhelPackages)
      = [\<lparr>Name = ''etcd'', Version = ''3.5.4-1''\<rparr>]"
    by (simp add: getCommonPackages_def getRhelPackages_def map_filter_simps absent present)
  have rhel: "detectFamily plainUnicode (getOSInfo exampleHost) = RhelFamily"
    by (simp add: detectFamily_def isDebianFamily_def isRHELFamily_def getOSInfo_def
        exampleHost_def HasPrefix_def lower_eval Let_def)
  have pmm: "queryRpm exampleRunner ''pmm2-client'' = Inl errPackageNotFound"
    by (simp add: queryRpm_def exampleRunner_def parseRpmOutput_def Contains_def)
  have one: "fst (scrapeLoop (queryRpm exampleRunner) [''etcd''] [] [])
      = [\<lparr>Name = ''etcd'', Version = ''3.5.4-1''\<rparr>]"
    "fst (scrapeLoop (queryRpm exampleRunner) [''pmm2-client''] [] []) = []"
    "fst (scrapeLoop (queryRpm exampleRunner) [''proxysql''] [] []) = []"
    by (simp_all add: etcd pmm proxysql)
  have failing: "fst (scrapeLoop (queryRpm exampleRunner) ([''etcd''] @ ''proxysql'' # [''etcd'']) [] [])
       = fst (scrapeLoop (queryRpm exampleRunner) [''etcd''] [] [])
         @ fst (scrapeLoop (queryRpm exampleRunner) [''etcd''] [] [])"
    and succeeding:
      "fst (scrapeLoop (queryRpm exampleRunner) ([''pmm2-client''] @ ''etcd'' # [''proxysql'']) [] [])
       = fst (scrapeLoop (queryRpm exampleRunner) [''pmm2-client''] [] [])
         @ \<lparr>Name = ''etcd'', Version = ''3.5.4-1''\<rparr>
         # fst (scrapeLoop (queryRpm exampleRunner) [''proxysql''] [] [])"
    and whole: "ScrapeInstalledPackages plainUnicode exampleHost exampleRunner
       = (List.map_filter (installed (queryRpm exampleRunner)) (getCommonPackages @ getRhelPackages),
          getCommonPackages @ getRhelPackages)"
    using ScrapeInstalledPackages_best_effort
      [where u = plainUnicode and info = exampleHost and run = exampleRunner
         and pkgFunc = "queryRpm exampleRunner" and failing = "''proxysql''"
         and err = "Err ''exit status 1''" and before = "[''etcd'']" and after = "[''etcd'']"
         and found = "''etcd''" and pkg = "\<lparr>Name = ''etcd'', Version = ''3.5.4-1''\<rparr>"
         and before' = "[''pmm2-client'']" and after' = "[''proxysql'']"]
      etcd proxysql rhel
    by simp_all
  show ?thesis
    using failing succeeding whole by (simp only: rhel etcd proxysql found one) simp
qed



section \<open>The claims about the identity file and the host metrics\<close>

text \<open>
  Claim C4: when the identity file exists, is not empty and has no line that splits on
  the colon into exactly two parts with the first part \<open>instanceId\<close>, \<open>getInstanceID\<close>
  returns the empty string with no error and leaves the file as it is, whatever the
  calls that write would answer.
\<close>

theorem getInstanceID_no_identity_line:
  "content \<noteq> [] \<and> (\<forall>l\<in>set (Split content LF). \<not> identityLine l)
    \<longrightarrow> getInstanceID u env (DirPresent (FilePresent content))
          = (Inr [], DirPresent (FilePresent content))"
proof
  assume a: "content \<noteq> [] \<and> (\<forall>l\<in>set (Split content LF). \<not> identityLine l)"
  then have "instanceIDScan u content = []"
    using instanceIDScan_no_line by blast
  with a show "getInstanceID u env (DirPresent (FilePresent content))
          = (Inr [], DirPresent (FilePresent content))"
    by (simp add: host_eval)
qed

text \<open>
  Claim C4 on a file of three lines: a comment, the key in other letters, and the key
  followed by a value that holds a colon.
\<close>

theorem getInstanceID_no_identity_line_witness:
  "Split (''# percona'' @ LF # ''instanceID: 1bed5f0d'' @ LF # ''instanceId: a:b'') LF
      = [''# percona'', ''instanceID: 1bed5f0d'', ''instanceId: a:b'']
   \<and> \<not> identityLine ''instanceId: a:b''
   \<and> getInstanceID plainUnicode exampleCalls
        (DirPresent (FilePresent (''# percona'' @ LF # ''instanceID: 1bed5f0d'' @ LF # ''instanceId: a:b'')))
      = (Inr [],
         DirPresent (FilePresent (''# percona'' @ LF # ''instanceID: 1bed5f0d'' @ LF # ''instanceId: a:b'')))"
proof -
  let ?content = "''# percona'' @ LF # ''instanceID: 1bed5f0d'' @ LF # ''instanceId: a:b''"
  have 1: "Split ?content LF = [''# percona'', ''instanceID: 1bed5f0d'', ''instanceId: a:b'']"
    by simp
  have 2: "\<not> identityLine ''# percona''" "\<not> identityLine ''instanceID: 1bed5f0d''"
    "\<not> identityLine ''instanceId: a:b''"
    by (simp_all add: identityLine_def instanceIDKey_def)
  have 3: "?content \<noteq> [] \<and> (\<forall>l\<in>set (Split ?content LF). \<not> identityLine l)"
    by (simp only: 1) (simp add: 2)
  show ?thesis
    using getInstanceID_no_identity_line
      [where content = ?content and u = plainUnicode and env = exampleCalls] 1 2 3
    by blast
qed

text \<open>
  Claim C5: from a state with neither the directory nor the file, when the directory can
  be made and the file written, \<open>getInstanceID\<close> returns the identifier drawn and
  leaves the directory with a file that holds the one line \<open>instanceId: <uuid>\<close>; a
  second call on that state, with any answers of the calls that write and any other
  identifier to draw, returns the same string and leaves the file as it is.
\<close>

theorem getInstanceID_round_trip:
  "isUUID (uuid_New env) \<and> MkdirAll_fails env = None \<and> WriteFile_fails env = None
    \<longrightarrow> getInstanceID u env DirAbsent
          = (Inr (uuid_New env), DirPresent (FilePresent (''instanceId: '' @ uuid_New env)))
        \<and> getInstanceID u' env' (DirPresent (FilePresent (''instanceId: '' @ uuid_New env)))
          = (Inr (uuid_New env), DirPresent (FilePresent (''instanceId: '' @ uuid_New env)))"
proof
  assume a: "isUUID (uuid_New env) \<and> MkdirAll_fails env = None \<and> WriteFile_fails env = None"
  then have scan: "instanceIDScan u' (instanceIDKey @ '': '' @ uuid_New env) = uuid_New env"
    using instanceIDScan_created by blast
  have key: "''instanceId: '' @ uuid_New env = instanceIDKey @ '': '' @ uuid_New env"
    by (simp add: instanceIDKey_def)
  have first: "getInstanceID u env DirAbsent
      = (Inr (uuid_New env), DirPresent (FilePresent (''instanceId: '' @ uuid_New env)))"
    using a by (simp add: host_eval instanceIDKey_def)
  have second: "getInstanceID u' env' (DirPresent (FilePresent (''instanceId: '' @ uuid_New env)))
      = (Inr (uuid_New env), DirPresent (FilePresent (''instanceId: '' @ uuid_New env)))"
    unfolding key using scan by (simp add: host_eval instanceIDKey_def)
  from first second
  show "getInstanceID u env DirAbsent
          = (Inr (uuid_New env), DirPresent (FilePresent (''instanceId: '' @ uuid_New env)))
        \<and> getInstanceID u' env' (DirPresent (FilePresent (''instanceId: '' @ uuid_New env)))
          = (Inr (uuid_New env), DirPresent (FilePresent (''instanceId: '' @ uuid_New env)))"
    by (rule conjI)
qed

text \<open>
  Claim C5 with the identifier \<open>1bed5f0d-cc3a-11ee-bd8a-c84bd64e0277\<close>; the second
  call would draw another identifier and could not write.
\<close>

theorem getInstanceID_round_trip_witness:
  "isUUID ''1bed5f0d-cc3a-11ee-bd8a-c84bd64e0277''
   \<and> getInstanceID plainUnicode exampleCalls DirAbsent
      = (Inr ''1bed5f0d-cc3a-11ee-bd8a-c84bd64e0277'',
         DirPresent (FilePresent ''instanceId: 1bed5f0d-cc3a-11ee-bd8a-c84bd64e0277''))
   \<and> getInstanceID plainUnicode
        \<lparr>MkdirAll_fails = Some ''read-only file system'',
         WriteFile_fails = Some (''read-only file system'', FileAbsent),
         uuid_New = ''00000000-0000-4000-8000-000000000000''\<rparr>
        (DirPresent (FilePresent ''instanceId: 1bed5f0d-cc3a-11ee-bd8a-c84bd64e0277''))
      = (Inr ''1bed5f0d-cc3a-11ee-bd8a-c84bd64e0277'',
         DirPresent (FilePresent ''instanceId: 1bed5f0d-cc3a-11ee-bd8a-c84bd64e0277''))"
proof -
  have 1: "isUUID ''1bed5f0d-cc3a-11ee-bd8a-c84bd64e0277''"
    by (simp add: isUUID_def)
  have 2: "isUUID (uuid_New exampleCalls) \<and> MkdirAll_fails exampleCalls = None
      \<and> WriteFile_fails exampleCalls = None"
    using 1 by (simp add: exampleCalls_def)
  show ?thesis
    using getInstanceID_round_trip
      [where env = exampleCalls and u = plainUnicode and u' = plainUnicode
         and env' = "\<lparr>MkdirAll_fails = Some ''read-only file system'',
           WriteFile_fails = Some (''read-only file system'', FileAbsent),
           uuid_New = ''00000000-0000-4000-8000-000000000000''\<rparr>"] 1 2
    by (simp add: exampleCalls_def)
qed

text \<open>
  Claim C7, as the specification states it: each of the values \<open>OS\<close>, \<open>deployment\<close> and
  \<open>hardware_arch\<close> comes from the host information and is \<open>unknown\<close> when its query
  fails.  With both queries failing, \<open>OS\<close> and \<open>hardware_arch\<close> are \<open>unknown\<close> and
  \<open>deployment\<close> is not: it is \<open>PACKAGE\<close>.
\<close>

theorem ScrapeHostMetrics_deployment_is_not_queried:
  "\<exists>m. fst (ScrapeHostMetrics plainUnicode exampleCalls DirAbsent 0
             (Inl (Err ''uname failed'')) (Inl (Err ''uname failed''))) = Inr m
     \<and> Metrics m ''OS'' = Some ''unknown''
     \<and> Metrics m ''hardware_arch'' = Some ''unknown''
     \<and> Metrics m ''deployment'' = Some ''PACKAGE''
     \<and> Metrics m ''deployment'' \<noteq> Some ''unknown''"
  by (simp add: ScrapeHostMetrics_def host_eval exampleCalls_def getOSInfo_def
      getHardwareInfo_def getDeploymentInfo_def instanceIDKey_def)

text \<open>
  Claim C7, amended: when \<open>getInstanceID\<close> succeeds, \<open>ScrapeHostMetrics\<close> succeeds
  whatever the two queries of the host information answer.  The value \<open>OS\<close> is the
  name and the core of the first query joined by a space, and \<open>unknown\<close> when that
  query fails; the value \<open>hardware_arch\<close> is the platform of the second query, and
  \<open>unknown\<close> when that query fails; the value \<open>deployment\<close> is always \<open>PACKAGE\<close>.
\<close>

theorem ScrapeHostMetrics_host_fields:
  "getInstanceID u env fs = (Inr instanceID, fs')
    \<longrightarrow> (\<exists>m. ScrapeHostMetrics u env fs now osQuery hwQuery = (Inr m, fs')
          \<and> Metrics m ''OS''
              = Some (case osQuery of Inl e \<Rightarrow> ''unknown'' | Inr gi \<Rightarrow> OS gi @ '' '' @ Core gi)
          \<and> Metrics m ''hardware_arch''
              = Some (case hwQuery of Inl e \<Rightarrow> ''unknown'' | Inr gi \<Rightarrow> Platform gi)
          \<and> Metrics m ''deployment'' = Some ''PACKAGE'')"
  by (simp add: ScrapeHostMetrics_def getOSInfo_def getHardwareInfo_def getDeploymentInfo_def
      instanceIDKey_def Let_def)

text \<open>
  The amended claim C7 where the first query fails and the second one answers.
\<close>

theorem ScrapeHostMetrics_host_fields_witness:
  "getInstanceID plainUnicode exampleCalls (DirPresent FileAbsent)
      = (Inr ''1bed5f0d-cc3a-11ee-bd8a-c84bd64e0277'',
         DirPresent (FilePresent ''instanceId: 1bed5f0d-cc3a-11ee-bd8a-c84bd64e0277''))
   \<and> (\<exists>m. ScrapeHostMetrics plainUnicode exampleCalls (DirPresent FileAbsent) 1700000000
            (Inl (Err ''uname failed''))
            (Inr \<lparr>OS = ''GNU/Linux'', Core = ''5.15.0'', Platform = ''x86_64''\<rparr>)
          = (Inr m, DirPresent (FilePresent ''instanceId: 1bed5f0d-cc3a-11ee-bd8a-c84bd64e0277''))
        \<and> Metrics m ''OS'' = Some ''unknown''
        \<and> Metrics m ''hardware_arch'' = Some ''x86_64''
        \<and> Metrics m ''deployment'' = Some ''PACKAGE'')"
proof -
  have 1: "getInstanceID plainUnicode exampleCalls (DirPresent FileAbsent)
      = (Inr ''1bed5f0d-cc3a-11ee-bd8a-c84bd64e0277'',
         DirPresent (FilePresent ''instanceId: 1bed5f0d-cc3a-11ee-bd8a-c84bd64e0277''))"
    by (simp add: host_eval exampleCalls_def instanceIDKey_def)
  show ?thesis
    using ScrapeHostMetrics_host_fields
      [where u = plainUnicode and env = exampleCalls and fs = "DirPresent FileAbsent"
         and instanceID = "''1bed5f0d-cc3a-11ee-bd8a-c84bd64e0277''"
         and fs' = "DirPresent (FilePresent ''instanceId: 1bed5f0d-cc3a-11ee-bd8a-c84bd64e0277'')"
         and now = 1700000000 and osQuery = "Inl (Err ''uname failed'')"
         and hwQuery = "Inr \<lparr>OS = ''GNU/Linux'', Core = ''5.15.0'', Platform = ''x86_64''\<rparr>"]
      1
    by simp
qed

text \<open>
  Claim C8: \<open>getInstanceID\<close> generates and persists a fresh identifier exactly when
  the directory is absent, the file is absent or the file is present and empty.  In
  these three states, when the directory can be made and the file written, the call
  returns the identifier drawn and the file holds it afterwards; when they cannot, the
  call returns an error and no identifier.  In every other state nothing is written and
  the result does not depend on the identifier that would be drawn.  In particular a
  file that is present and not empty is never overwritten.
\<close>

theorem getInstanceID_generates_iff_nothing_stored:
  "(nothingStored fsA \<and> MkdirAll_fails envA = None \<and> WriteFile_fails envA = None
      \<longrightarrow> getInstanceID u envA fsA
            = (Inr (uuid_New envA),
               DirPresent (FilePresent (instanceIDKey @ '': '' @ uuid_New envA))))
   \<and> (nothingStored fsB
      \<longrightarrow> (\<exists>e. fst (getInstanceID u envB fsB) = Inl e)
          \<or> getInstanceID u envB fsB
            = (Inr (uuid_New envB),
               DirPresent (FilePresent (instanceIDKey @ '': '' @ uuid_New envB))))
   \<and> (\<not> nothingStored fsC
      \<longrightarrow> snd (getInstanceID u envC fsC) = fsC
          \<and> getInstanceID u envC fsC = getInstanceID u envC' fsC)
   \<and> (content \<noteq> []
      \<longrightarrow> snd (getInstanceID u envD (DirPresent (FilePresent content)))
            = DirPresent (FilePresent content))"
proof (intro conjI impI)
  assume "nothingStored fsA \<and> MkdirAll_fails envA = None \<and> WriteFile_fails envA = None"
  then show "getInstanceID u envA fsA
            = (Inr (uuid_New envA),
               DirPresent (FilePresent (instanceIDKey @ '': '' @ uuid_New envA)))"
    by (auto simp: nothingStored_def host_eval)
next
  assume "nothingStored fsB"
  then show "(\<exists>e. fst (getInstanceID u envB fsB) = Inl e)
          \<or> getInstanceID u envB fsB
            = (Inr (uuid_New envB),
               DirPresent (FilePresent (instanceIDKey @ '': '' @ uuid_New envB)))"
    by (auto simp: nothingStored_def host_eval split: option.splits)
next
  assume n: "\<not> nothingStored fsC"
  then obtain f where fsC: "fsC = DirPresent f" and f: "f \<noteq> FileAbsent" "f \<noteq> FilePresent []"
    by (cases fsC) (auto simp: nothingStored_def)
  show "snd (getInstanceID u envC fsC) = fsC"
    using f unfolding fsC by (cases f) (simp_all add: host_eval)
  show "getInstanceID u envC fsC = getInstanceID u envC' fsC"
    using f unfolding fsC by (cases f) (simp_all add: host_eval)
next
  assume "content \<noteq> []"
  then show "snd (getInstanceID u envD (DirPresent (FilePresent content)))
            = DirPresent (FilePresent content)"
    by (simp add: host_eval)
qed

text \<open>
  Claim C8 on an empty file, which is replaced; on an absent directory that cannot be
  made, where the call fails; and on a file that holds an identifier, which stays.
\<close>

theorem getInstanceID_generates_iff_nothing_stored_witness:
  "nothingStored (DirPresent (FilePresent []))
   \<and> getInstanceID plainUnicode exampleCalls (DirPresent (FilePresent []))
      = (Inr ''1bed5f0d-cc3a-11ee-bd8a-c84bd64e0277'',
         DirPresent (FilePresent ''instanceId: 1bed5f0d-cc3a-11ee-bd8a-c84bd64e0277''))
   \<and> nothingStored DirAbsent
   \<and> getInstanceID plainUnicode (exampleCalls\<lparr>MkdirAll_fails := Some ''permission denied''\<rparr>) DirAbsent
      = (Inl (Err ''permission denied''), DirAbsent)
   \<and> \<not> nothingStored (DirPresent (FilePresent ''instanceId: 00000000-0000-4000-8000-000000000000''))
   \<and> getInstanceID plainUnicode exampleCalls
        (DirPresent (FilePresent ''instanceId: 00000000-0000-4000-8000-000000000000''))
      = (Inr ''00000000-0000-4000-8000-000000000000'',
         DirPresent (FilePresent ''instanceId: 00000000-0000-4000-8000-000000000000''))"
proof -
  let ?stored = "DirPresent (FilePresent ''instanceId: 00000000-0000-4000-8000-000000000000'')"
  have 1: "nothingStored (DirPresent (FilePresent []))" "nothingStored DirAbsent"
    "\<not> nothingStored ?stored"
    by (simp_all add: nothingStored_def)
  have 2: "MkdirAll_fails exampleCalls = None \<and> WriteFile_fails exampleCalls = None"
    by (simp add: exampleCalls_def)
  have 3: "getInstanceID plainUnicode (exampleCalls\<lparr>MkdirAll_fails := Some ''permission denied''\<rparr>)
      DirAbsent = (Inl (Err ''permission denied''), DirAbsent)"
    by (simp add: host_eval)
  have "isUUID ''00000000-0000-4000-8000-000000000000''"
    by (simp add: isUUID_def)
  then have "instanceIDScan plainUnicode (instanceIDKey @ '': '' @ ''00000000-0000-4000-8000-000000000000'')
      = ''00000000-0000-4000-8000-000000000000''"
    by (rule instanceIDScan_created)
  then have 4: "fst (getInstanceID plainUnicode exampleCalls ?stored)
      = Inr ''00000000-0000-4000-8000-000000000000''"
    by (simp add: host_eval instanceIDKey_def)
  have 5: "getInstanceID plainUnicode exampleCalls ?stored
      = (fst (getInstanceID plainUnicode exampleCalls ?stored),
         snd (getInstanceID plainUnicode exampleCalls ?stored))"
    by simp
  show ?thesis
    using getInstanceID_generates_iff_nothing_stored
      [where u = plainUnicode and fsA = "DirPresent (FilePresent [])" and envA = exampleCalls
         and fsB = DirAbsent and envB = "exampleCalls\<lparr>MkdirAll_fails := Some ''permission denied''\<rparr>"
         and fsC = ?stored and envC = exampleCalls and envC' = exampleCalls
         and content = "''instanceId: 00000000-0000-4000-8000-000000000000''"
         and envD = exampleCalls]
      1 2 3 4 5
    by (simp add: exampleCalls_def instanceIDKey_def)
qed

text \<open>
  Claim C10: whenever \<open>getInstanceID\<close> returns no error, \<open>ScrapeHostMetrics\<close> returns a
  record and no error, also when the identifier is the empty string; the metrics of the
  record map \<open>instanceId\<close> to the identifier returned, the empty string in that case, and
  their keys are \<open>instanceId\<close>, \<open>OS\<close>, \<open>deployment\<close> and \<open>hardware_arch\<close>.
\<close>

theorem ScrapeHostMetrics_keeps_empty_identifier:
  "getInstanceID u env fs = (Inr instanceID, fs')
    \<longrightarrow> (\<exists>m. ScrapeHostMetrics u env fs now osQuery hwQuery = (Inr m, fs')
          \<and> Metrics m ''instanceId'' = Some instanceID
          \<and> dom (Metrics m) = {''instanceId'', ''OS'', ''deployment'', ''hardware_arch''})"
  by (auto simp: ScrapeHostMetrics_def instanceIDKey_def Let_def)

text \<open>
  Claim C10 on a file that is not empty and holds no identifier: the identifier is the
  empty string and the record maps \<open>instanceId\<close> to it.
\<close>

theorem ScrapeHostMetrics_keeps_empty_identifier_witness:
  "getInstanceID plainUnicode exampleCalls (DirPresent (FilePresent ''not an identifier''))
      = (Inr [], DirPresent (FilePresent ''not an identifier''))
   \<and> (\<exists>m. ScrapeHostMetrics plainUnicode exampleCalls
            (DirPresent (FilePresent ''not an identifier'')) 1700000000
            (Inl (Err ''uname failed'')) (Inl (Err ''uname failed''))
          = (Inr m, DirPresent (FilePresent ''not an identifier''))
        \<and> Metrics m ''instanceId'' = Some []
        \<and> dom (Metrics m) = {''instanceId'', ''OS'', ''deployment'', ''hardware_arch''})"
proof -
  have "\<forall>l\<in>set (Split ''not an identifier'' LF). \<not> identityLine l"
    by (simp add: identityLine_def)
  then have "instanceIDScan plainUnicode ''not an identifier'' = []"
    by (rule instanceIDScan_no_line)
  then have 1: "getInstanceID plainUnicode exampleCalls (DirPresent (FilePresent ''not an identifier''))
      = (Inr [], DirPresent (FilePresent ''not an identifier''))"
    by (simp add: host_eval)
  show ?thesis
    using ScrapeHostMetrics_keeps_empty_identifier
      [where u = plainUnicode and env = exampleCalls
         and fs = "DirPresent (FilePresent ''not an identifier'')" and instanceID = "[]"
         and fs' = "DirPresent (FilePresent ''not an identifier'')" and now = 1700000000
         and osQuery = "Inl (Err ''uname failed'')" and hwQuery = "Inl (Err ''uname failed'')"]
      1
    by simp
qed

end
